theory Spec2Isabelle
  imports Complex_Main "HOL-Library.Log_Nat" "HOL-Library.AList"
begin

section \<open>JavaScript values\<close>

text \<open>
  The service is one JavaScript module (\<^verbatim>\<open>src/index.js\<close>). Its handlers receive JSON
  documents and test them with the language's own notions of presence: \<^verbatim>\<open>!x\<close>,
  \<^verbatim>\<open>x || d\<close>, \<^verbatim>\<open>x ? a : b\<close> and \<^verbatim>\<open>x?.f\<close>. The values are modelled as a datatype and these
  tests as functions on it.

  Strings are lists of 8-bit characters, read as the code units U+0000 to U+00FF of a
  JavaScript string (Latin-1); on that range \<^verbatim>\<open>toLowerCase\<close> and \<^verbatim>\<open>trim\<close> are modelled
  exactly. Strings with code units beyond U+00FF are outside the model. A number is
  given by the value of the decimal text that JSON prints for it (\<^verbatim>\<open>0.7\<close> is 7/10);
  \<^verbatim>\<open>0\<close> and \<^verbatim>\<open>-0\<close> are one value (both are falsy), and the infinities are not
  represented. An object is the list of its own properties.
\<close>

datatype jsval =
    JUndefined
  | JNull
  | JBool bool
  | JNum rat
  | JStr string
  | JArr "jsval list"
  | JObj "(string \<times> jsval) list"

datatype js_error = TypeError | SyntaxError

text \<open>\<^verbatim>\<open>ToBoolean\<close>: what \<^verbatim>\<open>!x\<close>, \<^verbatim>\<open>x || y\<close>, \<^verbatim>\<open>x && y\<close> and \<^verbatim>\<open>x ? a : b\<close> test.\<close>

fun truthy :: "jsval \<Rightarrow> bool" where
  "truthy JUndefined = False"
| "truthy JNull = False"
| "truthy (JBool b) = b"
| "truthy (JNum n) = (n \<noteq> 0)"
| "truthy (JStr s) = (s \<noteq> [])"
| "truthy (JArr xs) = True"
| "truthy (JObj kvs) = True"

text \<open>\<^verbatim>\<open>a || b\<close> on values.\<close>

definition js_or :: "jsval \<Rightarrow> jsval \<Rightarrow> jsval" where
  "js_or a b = (if truthy a then a else b)"

text \<open>
  Reading a property \<^verbatim>\<open>v.k\<close> (also what the destructuring \<^verbatim>\<open>const { k } = v\<close> does for
  each name). On \<^verbatim>\<open>undefined\<close> and \<^verbatim>\<open>null\<close> it throws a TypeError. On an object it is the
  own property or \<^verbatim>\<open>undefined\<close>. None of the names the service reads this way
  (\<^verbatim>\<open>txHash\<close>, \<^verbatim>\<open>signature\<close> and the body's field names) is a property of a prototype
  of objects, arrays, strings, numbers or booleans, so elsewhere the result is
  \<^verbatim>\<open>undefined\<close>.
\<close>

fun get_prop :: "jsval \<Rightarrow> string \<Rightarrow> js_error + jsval" where
  "get_prop JUndefined k = Inl TypeError"
| "get_prop JNull k = Inl TypeError"
| "get_prop (JObj kvs) k = (case map_of kvs k of Some v \<Rightarrow> Inr v | None \<Rightarrow> Inr JUndefined)"
| "get_prop v k = Inr JUndefined"

section \<open>Strings\<close>

text \<open>
  \<^verbatim>\<open>String.prototype.toLowerCase\<close> on Latin-1: the letters A to Z and the letters
  U+00C0 to U+00DE other than the multiplication sign U+00D7 move up by 32; every
  other code unit stays.
\<close>

definition toLowerCase_char :: "char \<Rightarrow> char" where
  "toLowerCase_char c =
     (let n = (of_char c :: nat) in
      if (65 \<le> n \<and> n \<le> 90) \<or> (192 \<le> n \<and> n \<le> 222 \<and> n \<noteq> 215)
      then char_of (n + 32) else c)"

definition String_toLowerCase :: "string \<Rightarrow> string" where
  "String_toLowerCase s = map toLowerCase_char s"

text \<open>
  The white space and line terminators that \<^verbatim>\<open>String.prototype.trim\<close> removes, on
  Latin-1: tab, line feed, vertical tab, form feed, carriage return, space and the
  no-break space U+00A0.
\<close>

definition isWhiteSpace :: "char \<Rightarrow> bool" where
  "isWhiteSpace c = ((of_char c :: nat) \<in> {9, 10, 11, 12, 13, 32, 160})"

definition String_trim :: "string \<Rightarrow> string" where
  "String_trim s = rev (dropWhile isWhiteSpace (rev (dropWhile isWhiteSpace s)))"

section \<open>The style validator\<close>

definition DANCE_STYLES :: "string list" where
  "DANCE_STYLES =
     [''krump'', ''breaking'', ''hip-hop'', ''popping'', ''locking'',
      ''house'', ''waacking'', ''afro'', ''kpop'', ''ballet'',
      ''contemporary'', ''jazz'', ''tap'', ''salsa'', ''voguing'',
      ''dancehall'', ''reggaeton'', ''twerk'', ''shuffle'', ''other'']"

text \<open>
  \<^verbatim>\<open>const normalized = style?.toLowerCase().trim();\<close>
  \<^verbatim>\<open>return DANCE_STYLES.includes(normalized) ? normalized : null;\<close>

  The optional chain stops at \<^verbatim>\<open>undefined\<close> and \<^verbatim>\<open>null\<close>, which are then not in the list.
  Any other value that is not a string has no \<^verbatim>\<open>toLowerCase\<close>, and calling it throws.
\<close>

fun validateStyle :: "jsval \<Rightarrow> js_error + jsval" where
  "validateStyle JUndefined = Inr JNull"
| "validateStyle JNull = Inr JNull"
| "validateStyle (JStr style) =
     (let normalized = String_trim (String_toLowerCase style)
      in Inr (if normalized \<in> set DANCE_STYLES then JStr normalized else JNull))"
| "validateStyle v = Inl TypeError"

section \<open>Numbers\<close>

text \<open>
  A JavaScript number is an IEEE 754 binary64 value. \<open>to_double\<close> rounds a rational to
  the nearest value with a 53-bit significand, ties to the even significand; it is the
  value of a decimal literal and the rounding step of every arithmetic operation. The
  exponent range is not bounded here: the service only forms numbers between
  \<^verbatim>\<open>0.001\<close> and \<^verbatim>\<open>1e6\<close>, far from overflow and underflow.
\<close>

definition pow2 :: "int \<Rightarrow> rat" where
  "pow2 k = (if 0 \<le> k then 2 ^ nat k else 1 / 2 ^ nat (- k))"

definition round_half_even :: "rat \<Rightarrow> int" where
  "round_half_even m =
     (let f = \<lfloor>m\<rfloor>; d = m - of_int f
      in if d < 1 / 2 then f
         else if 1 / 2 < d then f + 1
         else if even f then f else f + 1)"

definition binary_exponent :: "rat \<Rightarrow> int" where
  \<comment> \<open>for \<open>0 < x\<close>: the \<open>e\<close> with \<open>2 ^ e \<le> x < 2 ^ (e + 1)\<close>\<close>
  "binary_exponent x =
     (let (a, b) = quotient_of x; k = bitlen a - bitlen b
      in if pow2 k \<le> x then k else k - 1)"

definition to_double :: "rat \<Rightarrow> rat" where
  "to_double x =
     (if x = 0 then 0
      else let ulp = pow2 (binary_exponent \<bar>x\<bar> - 52)
           in sgn x * of_int (round_half_even (\<bar>x\<bar> / ulp)) * ulp)"

text \<open>\<^verbatim>\<open>x * y\<close> on numbers: the exact product, rounded.\<close>

definition Number_times :: "rat \<Rightarrow> rat \<Rightarrow> rat" where
  "Number_times x y = to_double (x * y)"

text \<open>\<^verbatim>\<open>Math.floor\<close>, exact on every finite number.\<close>

definition Math_floor :: "rat \<Rightarrow> int" where
  "Math_floor x = \<lfloor>x\<rfloor>"

text \<open>
  \<^verbatim>\<open>String(n)\<close> for a whole number \<open>n\<close> below \<^verbatim>\<open>1e21\<close>: its decimal digits, with a
  minus sign when negative.
\<close>

definition digit_char :: "nat \<Rightarrow> char" where
  "digit_char d = ''0123456789abcdef'' ! (d mod 16)"

fun decimal :: "nat \<Rightarrow> string" where
  "decimal n = (if n < 10 then [digit_char n] else decimal (n div 10) @ [digit_char (n mod 10)])"

declare decimal.simps [simp del]

definition String_of_int :: "int \<Rightarrow> string" where
  "String_of_int i = (if i < 0 then CHR ''-'' # decimal (nat (- i)) else decimal (nat i))"

section \<open>Configuration\<close>

text \<open>
  \<^verbatim>\<open>const WALLET_ADDRESS = process.env.WALLET_ADDRESS || '0x1e1A...B092';\<close>
  The environment variable is a string or is not set; an empty string is falsy.
\<close>

record config =
  env_WALLET_ADDRESS :: "string option"

definition WALLET_ADDRESS :: "config \<Rightarrow> string" where
  "WALLET_ADDRESS cfg =
     (case env_WALLET_ADDRESS cfg of
        Some w \<Rightarrow> if w \<noteq> [] then w else ''0x1e1A34178d80a03E8F4B78f9Cc2AFA8Db23BB092''
      | None \<Rightarrow> ''0x1e1A34178d80a03E8F4B78f9Cc2AFA8Db23BB092'')"

definition CHAIN_ID :: nat where
  "CHAIN_ID = 84532"

definition USDC_ADDRESS :: string where
  "USDC_ADDRESS = ''0x036CbD53842c5426634e7929541eC2318f3dCF7e''"

text \<open>
  The pricing table, each price by the decimal literal the source writes. The number
  the program holds is \<open>to_double\<close> of it.
\<close>

definition PRICES :: "(string \<times> rat) list" where
  "PRICES =
     [(''verify/move'', 1 / 1000),
      (''verify/video'', 1 / 100),
      (''verify/choreography'', 5 / 100),
      (''verify/attribution'', 5 / 1000)]"

text \<open>
  \<^verbatim>\<open>`${PRICES[endpoint]}`\<close>: the shortest decimal that reads back as the same number,
  which for each price of the table is its literal; \<^verbatim>\<open>undefined\<close> for a name that is
  not in the table. The middleware is only ever built for the four names of the
  table, so the properties a name could inherit from \<^verbatim>\<open>Object.prototype\<close> are left out
  here and in \<open>PRICES\<close>.
\<close>

definition PRICES_text :: "string \<Rightarrow> string" where
  "PRICES_text endpoint =
     (case map_of
        [(''verify/move'', ''0.001''),
         (''verify/video'', ''0.01''),
         (''verify/choreography'', ''0.05''),
         (''verify/attribution'', ''0.005'')] endpoint of
        Some t \<Rightarrow> t
      | None \<Rightarrow> ''undefined'')"

section \<open>HTTP responses\<close>

text \<open>
  \<^verbatim>\<open>res.set(headers)\<close>, \<^verbatim>\<open>res.status(n).json(body)\<close> and \<^verbatim>\<open>res.json(body)\<close> (status 200)
  give a \<open>Response\<close>. An exception that leaves a route handler is answered by the
  framework's error handler with status 500: \<open>Uncaught\<close>.
\<close>

datatype response =
    Response (status: nat) (headers: "(string \<times> string) list") (body: jsval)
  | Uncaught js_error

section \<open>The payment gate\<close>

text \<open>
  \<^verbatim>\<open>JSON.stringify\<close> of a string: the quotation mark and the backslash are escaped,
  the control characters below U+0020 are written by their short escape or as
  \<^verbatim>\<open>\u00XX\<close>, and every other code unit of the Latin-1 range is copied.
\<close>

definition JSON_quote_char :: "char \<Rightarrow> string" where
  \<open>JSON_quote_char c =
     (let n = (of_char c :: nat) in
      if n = 34 then [CHR 0x5C, CHR 0x22]
      else if n = 92 then [CHR 0x5C, CHR 0x5C]
      else if n = 8 then [CHR 0x5C, CHR ''b'']
      else if n = 12 then [CHR 0x5C, CHR ''f'']
      else if n = 10 then [CHR 0x5C, CHR ''n'']
      else if n = 13 then [CHR 0x5C, CHR ''r'']
      else if n = 9 then [CHR 0x5C, CHR ''t'']
      else if n < 32 then [CHR 0x5C, CHR ''u'', CHR ''0'', CHR ''0'', digit_char (n div 16), digit_char (n mod 16)]
      else [c])\<close>

definition JSON_quote :: "string \<Rightarrow> string" where
  "JSON_quote s = [CHR 0x22] @ concat (map JSON_quote_char s) @ [CHR 0x22]"

text \<open>
  The object that \<open>createPaymentRequired\<close> hands to \<^verbatim>\<open>JSON.stringify\<close>:
  \<^verbatim>\<open>const price = PRICES[endpoint] || 0.001;\<close> and
  \<^verbatim>\<open>amount: String(Math.floor(price * 1e6))\<close>.
\<close>

definition price_of :: "string \<Rightarrow> rat" where
  "price_of endpoint =
     (case map_of PRICES endpoint of
        Some p \<Rightarrow> if to_double p \<noteq> 0 then to_double p else to_double (1 / 1000)
      | None \<Rightarrow> to_double (1 / 1000))"

definition payment_amount :: "string \<Rightarrow> string" where
  "payment_amount endpoint =
     String_of_int (Math_floor (Number_times (price_of endpoint) (to_double 1000000)))"

datatype member = Text string | Whole nat

fun member_value :: "member \<Rightarrow> jsval" where
  "member_value (Text s) = JStr s"
| "member_value (Whole n) = JNum (of_nat n)"

definition payment_members :: "config \<Rightarrow> string \<Rightarrow> (string \<times> member) list" where
  "payment_members cfg endpoint =
     [(''scheme'', Text ''exact''),
      (''network'', Text ''base-sepolia''),
      (''chainId'', Whole CHAIN_ID),
      (''payee'', Text (WALLET_ADDRESS cfg)),
      (''token'', Text USDC_ADDRESS),
      (''amount'', Text (payment_amount endpoint)),
      (''description'', Text (''Dance Verify: '' @ endpoint)),
      (''resource'', Text (''/'' @ endpoint)),
      (''mimeType'', Text ''application/json'')]"

text \<open>
  \<^verbatim>\<open>JSON.stringify\<close> of that object: its members in order, separated by commas, a
  string quoted and a whole number by its digits.
\<close>

fun JSON_stringify_member :: "string \<times> member \<Rightarrow> string" where
  "JSON_stringify_member (k, Text s) = JSON_quote k @ '':'' @ JSON_quote s"
| "JSON_stringify_member (k, Whole n) = JSON_quote k @ '':'' @ decimal n"

fun separated :: "string list \<Rightarrow> string" where
  "separated [] = []"
| "separated [x] = x"
| "separated (x # y # ys) = x @ '','' @ separated (y # ys)"

definition JSON_stringify_members :: "(string \<times> member) list \<Rightarrow> string" where
  "JSON_stringify_members ms = ''{'' @ separated (map JSON_stringify_member ms) @ ''}''"

definition createPaymentRequired :: "config \<Rightarrow> string \<Rightarrow> (string \<times> string) list" where
  "createPaymentRequired cfg endpoint =
     [(''x-402-version'', ''1''),
      (''x-402-payment'', JSON_stringify_members (payment_members cfg endpoint))]"

text \<open>
  \<^verbatim>\<open>JSON.parse(paymentInfo['x-402-payment'])\<close> reads the text just written back into
  the object it was written from (strings and one whole number).
\<close>

definition payment_instructions :: "config \<Rightarrow> string \<Rightarrow> jsval" where
  "payment_instructions cfg endpoint =
     JObj (map (\<lambda>(k, m). (k, member_value m)) (payment_members cfg endpoint))"

text \<open>
  The record of used proofs is a \<^verbatim>\<open>Map\<close>: its entries in insertion order, each key
  with the time of its use. Keys are compared by value when they are primitive. An
  object or an array is compared by identity, and the key that \<open>verifyPayment\<close> looks
  up was created by the \<^verbatim>\<open>JSON.parse\<close> of that very call, so it is never a key the
  map already holds.
\<close>

type_synonym payments = "(jsval \<times> nat) list"

fun by_identity :: "jsval \<Rightarrow> bool" where
  "by_identity (JArr xs) = True"
| "by_identity (JObj kvs) = True"
| "by_identity v = False"

definition Map_has :: "payments \<Rightarrow> jsval \<Rightarrow> bool" where
  "Map_has m k = (\<not> by_identity k \<and> k \<in> fst ` set m)"

definition Map_set :: "payments \<Rightarrow> jsval \<Rightarrow> nat \<Rightarrow> payments" where
  "Map_set m k v = (if by_identity k then m @ [(k, v)] else AList.update k v m)"

text \<open>
  \<^verbatim>\<open>JSON.parse\<close> is the language's; the gate takes it as a parameter, \<open>None\<close> where it
  throws a SyntaxError. What is proved of the gate holds for every such function.
\<close>

type_synonym json_parser = "string \<Rightarrow> jsval option"

text \<open>
  The body of the \<^verbatim>\<open>try\<close> block of \<open>verifyPayment\<close>, with \<^verbatim>\<open>Date.now()\<close> as \<open>now\<close>.
  Reading \<^verbatim>\<open>payment.txHash\<close> throws when the header is the JSON text \<^verbatim>\<open>null\<close>.
\<close>

definition verifyPayment_try ::
  "json_parser \<Rightarrow> nat \<Rightarrow> payments \<Rightarrow> string \<Rightarrow> js_error + (bool \<times> payments)" where
  "verifyPayment_try JSON_parse now payments paymentHeader =
     (case JSON_parse paymentHeader of
        None \<Rightarrow> Inl SyntaxError
      | Some payment \<Rightarrow>
          (case get_prop payment ''txHash'' of
             Inl e \<Rightarrow> Inl e
           | Inr txHash \<Rightarrow>
               (case get_prop payment ''signature'' of
                  Inl e \<Rightarrow> Inl e
                | Inr signature \<Rightarrow>
                    if \<not> truthy txHash \<and> \<not> truthy signature then Inr (False, payments)
                    else if truthy txHash \<and> Map_has payments txHash then Inr (False, payments)
                    else Inr (True, if truthy txHash then Map_set payments txHash now
                                    else payments))))"

text \<open>
  \<open>verifyPayment\<close>: a header that is absent or empty is refused before the \<^verbatim>\<open>try\<close>;
  whatever the block throws is caught and answered \<^verbatim>\<open>false\<close>.
\<close>

definition verifyPayment ::
  "json_parser \<Rightarrow> nat \<Rightarrow> payments \<Rightarrow> string option \<Rightarrow> bool \<times> payments" where
  "verifyPayment JSON_parse now payments paymentHeader =
     (case paymentHeader of
        None \<Rightarrow> (False, payments)
      | Some h \<Rightarrow>
          if h = [] then (False, payments)
          else (case verifyPayment_try JSON_parse now payments h of
                  Inl e \<Rightarrow> (False, payments)
                | Inr r \<Rightarrow> r))"

text \<open>
  \<open>x402Middleware(endpoint)\<close> on a request whose \<^verbatim>\<open>x-402-payment\<close> header is
  \<open>paymentHeader\<close> (\<open>None\<close> when the request has none). It answers the request itself
  (\<open>Some\<close>) or passes it on with \<^verbatim>\<open>next()\<close> (\<open>None\<close>).
\<close>

definition PaymentRequired :: "config \<Rightarrow> string \<Rightarrow> response" where
  "PaymentRequired cfg endpoint =
     Response 402 (createPaymentRequired cfg endpoint)
       (JObj [(''error'', JStr ''Payment Required''),
              (''message'', JStr (''This endpoint requires '' @ PRICES_text endpoint
                                   @ '' USDC payment via x402'')),
              (''payment'', payment_instructions cfg endpoint)])"

definition PaymentInvalid :: response where
  "PaymentInvalid =
     Response 402 []
       (JObj [(''error'', JStr ''Invalid Payment''),
              (''message'', JStr ''Payment verification failed. Please provide a valid x402 payment.'')])"

definition x402Middleware ::
  "config \<Rightarrow> json_parser \<Rightarrow> string \<Rightarrow> nat \<Rightarrow> payments \<Rightarrow> string option
     \<Rightarrow> response option \<times> payments" where
  "x402Middleware cfg JSON_parse endpoint now payments paymentHeader =
     (if paymentHeader = None \<or> paymentHeader = Some [] then
        (Some (PaymentRequired cfg endpoint), payments)
      else
        (case verifyPayment JSON_parse now payments paymentHeader of
           (isValid, payments') \<Rightarrow>
             if \<not> isValid then (Some PaymentInvalid, payments') else (None, payments')))"

section \<open>Receipts\<close>

text \<open>
  What a request reads from outside the program: the clock when the gate marks a
  reference as used, the clock when a receipt is minted and the ISO rendering
  \<^verbatim>\<open>new Date(timestamp).toISOString()\<close> of that instant, and the results of the
  request's calls of \<^verbatim>\<open>uuidv4()\<close>, numbered in the order they are made.
\<close>

record env =
  Date_now_gate :: nat
  Date_now :: nat
  toISOString :: string
  uuidv4 :: "nat \<Rightarrow> string"

text \<open>The receipt store is a \<^verbatim>\<open>Map\<close> from identifiers (strings) to receipts.\<close>

type_synonym receipts = "(string \<times> jsval) list"

text \<open>\<^verbatim>\<open>uuidv4().replace(/-/g, '').slice(0, n)\<close>\<close>

definition uuid_prefix :: "nat \<Rightarrow> string \<Rightarrow> string" where
  "uuid_prefix n u = take n (filter (\<lambda>c. c \<noteq> CHR ''-'') u)"

text \<open>
  \<open>generateReceipt(data)\<close>, where \<open>k\<close> numbers its call of \<^verbatim>\<open>uuidv4()\<close>. Every \<open>data\<close>
  the handlers pass has the four keys \<^verbatim>\<open>type\<close>, \<^verbatim>\<open>request\<close>, \<^verbatim>\<open>result\<close> and
  \<^verbatim>\<open>price_paid\<close>, none of which the receipt's own keys repeat, so the spread
  \<^verbatim>\<open>...data\<close> puts them between \<^verbatim>\<open>verifier\<close> and \<^verbatim>\<open>verification_level\<close>.
  \<^verbatim>\<open>receipts.set\<close> replaces the receipt of an identifier already in the store.
\<close>

definition generateReceipt ::
  "config \<Rightarrow> env \<Rightarrow> nat \<Rightarrow> (string \<times> jsval) list \<Rightarrow> receipts \<Rightarrow> jsval \<times> receipts" where
  "generateReceipt cfg e k data receipts =
     (let receiptId = ''dv_'' @ uuid_prefix 16 (uuidv4 e k);
          timestamp = Date_now e;
          receipt = JObj
            ([(''id'', JStr receiptId),
              (''version'', JStr ''1.0''),
              (''service'', JStr ''Dance Verify''),
              (''timestamp'', JNum (of_nat timestamp)),
              (''isoTime'', JStr (toISOString e)),
              (''chain'', JStr ''base-sepolia''),
              (''chainId'', JNum (of_nat CHAIN_ID)),
              (''verifier'', JStr (WALLET_ADDRESS cfg))]
             @ data @
             [(''verification_level'', JStr ''basic''),
              (''note'', JStr ''Claim recorded. Advanced AI verification coming Q2 2026.'')])
      in (receipt, AList.update receiptId receipt receipts))"

section \<open>The verification operations\<close>

text \<open>
  A route handler starts by destructuring \<^verbatim>\<open>req.body\<close>, which throws on \<^verbatim>\<open>undefined\<close>
  and \<^verbatim>\<open>null\<close>; otherwise each name is bound to the body's property.
\<close>

definition no_properties :: "jsval \<Rightarrow> bool" where
  "no_properties v = (v = JUndefined \<or> v = JNull)"

definition field :: "jsval \<Rightarrow> string \<Rightarrow> jsval" where
  "field v k = (case get_prop v k of Inr x \<Rightarrow> x | Inl e \<Rightarrow> JUndefined)"

definition BadRequest :: "string \<Rightarrow> response" where
  "BadRequest message =
     Response 400 [] (JObj [(''error'', JStr ''Bad Request''), (''message'', JStr message)])"

definition InvalidStyle :: "string \<Rightarrow> response" where
  \<open>InvalidStyle style =
     Response 400 []
       (JObj [(''error'', JStr ''Invalid Style''),
              (''message'', JStr (''Style "'' @ style
                                   @ ''" not recognized. Use GET /styles for valid options.'')),
              (''valid_styles'', JArr (map JStr DANCE_STYLES))])\<close>

text \<open>
  In a template literal a string stands for itself. The one value rendered this way,
  the style of the Invalid Style message, is a string whenever that message is
  built: \<open>validateStyle\<close> has thrown on anything else that is truthy.
\<close>

fun template_text :: "jsval \<Rightarrow> string" where
  "template_text (JStr s) = s"
| "template_text v = []"

text \<open>\<^verbatim>\<open>POST /verify/move\<close>\<close>

definition verify_move :: "config \<Rightarrow> env \<Rightarrow> jsval \<Rightarrow> receipts \<Rightarrow> response \<times> receipts" where
  "verify_move cfg e req_body receipts =
     (if no_properties req_body then (Uncaught TypeError, receipts)
      else
        let style = field req_body ''style'';
            move_name = field req_body ''move_name'';
            claimed_creator = field req_body ''claimed_creator'';
            description = field req_body ''description'';
            video_url = field req_body ''video_url''
        in
          if \<not> truthy style \<or> \<not> truthy move_name then
            (BadRequest ''Required fields: style, move_name'', receipts)
          else
            (case validateStyle style of
               Inl err \<Rightarrow> (Uncaught err, receipts)
             | Inr validStyle \<Rightarrow>
                 if \<not> truthy validStyle then (InvalidStyle (template_text style), receipts)
                 else
                   (case generateReceipt cfg e 0
                      [(''type'', JStr ''move_verification''),
                       (''request'', JObj
                          [(''style'', validStyle),
                           (''move_name'', move_name),
                           (''claimed_creator'', js_or claimed_creator (JStr ''unknown'')),
                           (''description'', js_or description JNull),
                           (''video_url'', js_or video_url JNull)]),
                       (''result'', JObj
                          [(''status'', JStr ''recorded''),
                           (''style_valid'', JBool True),
                           (''confidence'', JNum (7 / 10)),
                           (''attribution'',
                              if truthy claimed_creator then
                                JObj [(''claimed'', claimed_creator),
                                      (''verified'', JBool False),
                                      (''note'', JStr ''Attribution verification requires advanced tier'')]
                              else JNull)]),
                       (''price_paid'', JStr ''0.001 USDC'')]
                      receipts of
                      (receipt, receipts') \<Rightarrow> (Response 200 [] receipt, receipts'))))"

text \<open>
  \<^verbatim>\<open>const validStyle = style ? validateStyle(style) : 'other';\<close> as the video,
  choreography and attribution handlers have it.
\<close>

definition style_or_other :: "jsval \<Rightarrow> js_error + jsval" where
  "style_or_other style = (if truthy style then validateStyle style else Inr (JStr ''other''))"

text \<open>
  \<^verbatim>\<open>POST /verify/video\<close>. The object passed to \<open>generateReceipt\<close> is built first, so the
  content hash takes the request's first \<^verbatim>\<open>uuidv4()\<close> and the receipt the second.
\<close>

definition verify_video :: "config \<Rightarrow> env \<Rightarrow> jsval \<Rightarrow> receipts \<Rightarrow> response \<times> receipts" where
  "verify_video cfg e req_body receipts =
     (if no_properties req_body then (Uncaught TypeError, receipts)
      else
        let style = field req_body ''style'';
            video_url = field req_body ''video_url'';
            title = field req_body ''title'';
            claimed_creators = field req_body ''claimed_creators'';
            description = field req_body ''description''
        in
          if \<not> truthy video_url then (BadRequest ''Required field: video_url'', receipts)
          else
            (case style_or_other style of
               Inl err \<Rightarrow> (Uncaught err, receipts)
             | Inr validStyle \<Rightarrow>
                 (case generateReceipt cfg e 1
                    [(''type'', JStr ''video_verification''),
                     (''request'', JObj
                        [(''style'', validStyle),
                         (''video_url'', video_url),
                         (''title'', js_or title JNull),
                         (''claimed_creators'', js_or claimed_creators (JArr [])),
                         (''description'', js_or description JNull)]),
                     (''result'', JObj
                        [(''status'', JStr ''recorded''),
                         (''video_accessible'', JBool True),
                         (''content_hash'', JStr (''sha256_'' @ uuid_prefix 32 (uuidv4 e 0))),
                         (''style_detected'', validStyle),
                         (''confidence'', JNum (65 / 100)),
                         (''note'', JStr ''Full video analysis requires advanced tier with AI processing'')]),
                     (''price_paid'', JStr ''0.01 USDC'')]
                    receipts of
                    (receipt, receipts') \<Rightarrow> (Response 200 [] receipt, receipts'))))"

text \<open>
  \<^verbatim>\<open>moves?.length\<close>: nothing for \<^verbatim>\<open>undefined\<close> and \<^verbatim>\<open>null\<close>, the number of elements
  of an array, the number of code units of a string, the own property \<^verbatim>\<open>length\<close> of
  an object, and \<^verbatim>\<open>undefined\<close> for a number or a boolean.
\<close>

fun optional_length :: "jsval \<Rightarrow> jsval" where
  "optional_length (JArr xs) = JNum (of_nat (length xs))"
| "optional_length (JStr s) = JNum (of_nat (length s))"
| "optional_length (JObj kvs) = field (JObj kvs) ''length''"
| "optional_length v = JUndefined"

text \<open>\<^verbatim>\<open>POST /verify/choreography\<close>\<close>

definition verify_choreography ::
  "config \<Rightarrow> env \<Rightarrow> jsval \<Rightarrow> receipts \<Rightarrow> response \<times> receipts" where
  "verify_choreography cfg e req_body receipts =
     (if no_properties req_body then (Uncaught TypeError, receipts)
      else
        let style = field req_body ''style'';
            video_url = field req_body ''video_url'';
            title = field req_body ''title'';
            choreographer = field req_body ''choreographer'';
            moves = field req_body ''moves'';
            duration_seconds = field req_body ''duration_seconds''
        in
          if \<not> truthy video_url \<and> \<not> truthy moves then
            (BadRequest ''Required: video_url or moves array'', receipts)
          else
            (case style_or_other style of
               Inl err \<Rightarrow> (Uncaught err, receipts)
             | Inr validStyle \<Rightarrow>
                 (case generateReceipt cfg e 0
                    [(''type'', JStr ''choreography_verification''),
                     (''request'', JObj
                        [(''style'', validStyle),
                         (''video_url'', js_or video_url JNull),
                         (''title'', js_or title JNull),
                         (''choreographer'', js_or choreographer (JStr ''unknown'')),
                         (''moves'', js_or moves (JArr [])),
                         (''duration_seconds'', js_or duration_seconds JNull)]),
                     (''result'', JObj
                        [(''status'', JStr ''recorded''),
                         (''move_count'', js_or (optional_length moves) (JStr ''pending_analysis'')),
                         (''style_consistency'', JNum (8 / 10)),
                         (''originality_score'', JNum (6 / 10)),
                         (''choreographer_verified'', JBool False),
                         (''note'', JStr ''Full choreography breakdown requires advanced AI analysis'')]),
                     (''price_paid'', JStr ''0.05 USDC'')]
                    receipts of
                    (receipt, receipts') \<Rightarrow> (Response 200 [] receipt, receipts'))))"

text \<open>
  The table of known krump moves. \<^verbatim>\<open>knownMoves[normalizedMove]\<close> is the table's record
  when the name is one of its keys. The table is an object literal, so for the names
  \<^verbatim>\<open>constructor\<close> and \<^verbatim>\<open>__proto__\<close> the lookup finds what \<^verbatim>\<open>Object.prototype\<close> holds, a
  truthy value without a \<^verbatim>\<open>creator\<close>, and \<^verbatim>\<open>.creator.toLowerCase()\<close> throws; these are
  the only lower-case names the prototype has. Any other name gives \<^verbatim>\<open>undefined\<close>.
\<close>

definition knownMoves :: "(string \<times> string \<times> string) list" where
  "knownMoves =
     [(''chest pop'', ''Tight Eyez'', ''2000-2004''),
      (''arm swing'', ''Tight Eyez'', ''2000-2004''),
      (''stomp'', ''Big Mijo'', ''2000-2004''),
      (''buck'', ''Community'', ''2004-2008''),
      (''kill off'', ''Various'', ''2005+''),
      (''jab'', ''Community'', ''2002+'')]"

text \<open>
  The block under \<^verbatim>\<open>if (validStyle === 'krump')\<close>: the value of \<^verbatim>\<open>krumpKnowledge\<close>
  after it. \<^verbatim>\<open>toLowerCase\<close> is called on the move name, and on the claimed creator
  once a record is found; it throws on a value that is not a string.
\<close>

definition krump_lookup :: "jsval \<Rightarrow> jsval \<Rightarrow> js_error + jsval" where
  "krump_lookup move_name claimed_creator =
     (case move_name of
        JStr m \<Rightarrow>
          (let normalizedMove = String_toLowerCase m in
           case map_of knownMoves normalizedMove of
             Some (creator, era) \<Rightarrow>
               (case claimed_creator of
                  JStr c \<Rightarrow>
                    Inr (JObj
                      [(''known_origin'', JObj [(''creator'', JStr creator), (''era'', JStr era)]),
                       (''match'', JBool (String_toLowerCase creator = String_toLowerCase c))])
                | _ \<Rightarrow> Inl TypeError)
           | None \<Rightarrow>
               if normalizedMove = ''constructor'' \<or> normalizedMove = ''__proto__''
               then Inl TypeError else Inr JNull)
      | _ \<Rightarrow> Inl TypeError)"

text \<open>\<^verbatim>\<open>POST /verify/attribution\<close>\<close>

definition verify_attribution ::
  "config \<Rightarrow> env \<Rightarrow> jsval \<Rightarrow> receipts \<Rightarrow> response \<times> receipts" where
  "verify_attribution cfg e req_body receipts =
     (if no_properties req_body then (Uncaught TypeError, receipts)
      else
        let move_name = field req_body ''move_name'';
            claimed_creator = field req_body ''claimed_creator'';
            style = field req_body ''style'';
            year = field req_body ''year'';
            evidence_urls = field req_body ''evidence_urls''
        in
          if \<not> truthy move_name \<or> \<not> truthy claimed_creator then
            (BadRequest ''Required fields: move_name, claimed_creator'', receipts)
          else
            (case style_or_other style of
               Inl err \<Rightarrow> (Uncaught err, receipts)
             | Inr validStyle \<Rightarrow>
                 (case (if validStyle = JStr ''krump'' then krump_lookup move_name claimed_creator
                        else Inr JNull) of
                    Inl err \<Rightarrow> (Uncaught err, receipts)
                  | Inr krumpKnowledge \<Rightarrow>
                      (case generateReceipt cfg e 0
                         [(''type'', JStr ''attribution_verification''),
                          (''request'', JObj
                             [(''move_name'', move_name),
                              (''claimed_creator'', claimed_creator),
                              (''style'', validStyle),
                              (''year'', js_or year JNull),
                              (''evidence_urls'', js_or evidence_urls (JArr []))]),
                          (''result'', JObj
                             [(''status'', JStr ''recorded''),
                              (''claim_recorded'', JBool True),
                              (''krump_database_match'', krumpKnowledge),
                              (''verification_status'',
                                 if truthy (field krumpKnowledge ''match'')
                                 then JStr ''likely_accurate'' else JStr ''unverified''),
                              (''confidence'',
                                 if truthy krumpKnowledge then JNum (85 / 100) else JNum (5 / 10)),
                              (''note'',
                                 if validStyle = JStr ''krump''
                                 then JStr ''Krump attribution cross-referenced with our lineage database''
                                 else JStr ''Attribution recorded. Advanced verification coming soon.'')]),
                          (''price_paid'', JStr ''0.005 USDC'')]
                         receipts of
                         (receipt, receipts') \<Rightarrow> (Response 200 [] receipt, receipts')))))"

section \<open>The protected routes\<close>

text \<open>
  The four routes \<^verbatim>\<open>app.post('/verify/...', x402Middleware('verify/...'), handler)\<close>.
  A request is its \<^verbatim>\<open>x-402-payment\<close> header, when it has one, and the body as
  \<^verbatim>\<open>express.json()\<close> has parsed it. The free routes read the receipt store and never
  touch the record of used proofs; they are not part of this development.
\<close>

datatype operation = Move | Video | Choreography | Attribution

fun endpoint :: "operation \<Rightarrow> string" where
  "endpoint Move = ''verify/move''"
| "endpoint Video = ''verify/video''"
| "endpoint Choreography = ''verify/choreography''"
| "endpoint Attribution = ''verify/attribution''"

fun handler :: "operation \<Rightarrow> config \<Rightarrow> env \<Rightarrow> jsval \<Rightarrow> receipts \<Rightarrow> response \<times> receipts" where
  "handler Move = verify_move"
| "handler Video = verify_video"
| "handler Choreography = verify_choreography"
| "handler Attribution = verify_attribution"

record request =
  x402_payment :: "string option"
  req_body :: jsval

record server =
  payments :: payments
  receipts :: receipts

text \<open>One request to a protected route: the gate, then the handler when the gate lets it pass.\<close>

definition handle ::
  "config \<Rightarrow> json_parser \<Rightarrow> operation \<Rightarrow> env \<Rightarrow> request \<Rightarrow> server \<Rightarrow> response \<times> server" where
  "handle cfg JSON_parse op e req srv =
     (case x402Middleware cfg JSON_parse (endpoint op) (Date_now_gate e) (payments srv)
             (x402_payment req) of
        (Some answer, payments') \<Rightarrow> (answer, srv\<lparr>payments := payments'\<rparr>)
      | (None, payments') \<Rightarrow>
          (case handler op cfg e (req_body req) (receipts srv) of
             (answer, receipts') \<Rightarrow> (answer, \<lparr>payments = payments', receipts = receipts'\<rparr>)))"

text \<open>The state after a sequence of requests, served one after the other.\<close>

fun serve ::
  "config \<Rightarrow> json_parser \<Rightarrow> (operation \<times> env \<times> request) list \<Rightarrow> server \<Rightarrow> server" where
  "serve cfg JSON_parse [] srv = srv"
| "serve cfg JSON_parse ((op, e, req) # rest) srv =
     serve cfg JSON_parse rest (snd (handle cfg JSON_parse op e req srv))"

text \<open>The status line of an answer.\<close>

fun http_status :: "response \<Rightarrow> nat" where
  "http_status (Response n hs b) = n"
| "http_status (Uncaught err) = 500"

section \<open>Vocabulary of the claims\<close>

text \<open>
  A proof carries a field when the field's value is truthy, which is how the gate
  tests it (\<^verbatim>\<open>!payment.txHash\<close>, \<^verbatim>\<open>payment.txHash && ...\<close>).
\<close>

definition carries :: "jsval \<Rightarrow> string \<Rightarrow> bool" where
  "carries payment k = truthy (field payment k)"

text \<open>The gate lets a request pass when the middleware calls \<^verbatim>\<open>next()\<close>.\<close>

definition passes ::
  "config \<Rightarrow> json_parser \<Rightarrow> operation \<Rightarrow> env \<Rightarrow> request \<Rightarrow> server \<Rightarrow> bool" where
  "passes cfg JSON_parse op e req srv =
     (fst (x402Middleware cfg JSON_parse (endpoint op) (Date_now_gate e) (payments srv)
             (x402_payment req)) = None)"

text \<open>The \<^verbatim>\<open>error\<close> member of an answer's body, when it has one.\<close>

fun error_tag :: "response \<Rightarrow> string option" where
  "error_tag (Response n hs b) = (case field b ''error'' of JStr s \<Rightarrow> Some s | _ \<Rightarrow> None)"
| "error_tag (Uncaught err) = None"

text \<open>Reading a member of a member of a receipt, as in \<^verbatim>\<open>receipt.result.move_count\<close>.\<close>

definition member2 :: "response \<Rightarrow> string \<Rightarrow> string \<Rightarrow> jsval" where
  "member2 answer k1 k2 =
     (case answer of Response n hs b \<Rightarrow> field (field b k1) k2 | Uncaught err \<Rightarrow> JUndefined)"

text \<open>
  The required fields of each operation: the negation of the test that makes its
  handler answer \<^verbatim>\<open>Bad Request\<close>.
\<close>

fun has_required :: "operation \<Rightarrow> jsval \<Rightarrow> bool" where
  "has_required Move b = (truthy (field b ''style'') \<and> truthy (field b ''move_name''))"
| "has_required Video b = truthy (field b ''video_url'')"
| "has_required Choreography b = (truthy (field b ''video_url'') \<or> truthy (field b ''moves''))"
| "has_required Attribution b =
     (truthy (field b ''move_name'') \<and> truthy (field b ''claimed_creator''))"

section \<open>Example requests\<close>

text \<open>
  Concrete inputs for the instances below: the default configuration, the server as
  it starts, a clock and identifiers, and a few header texts with the values
  \<^verbatim>\<open>JSON.parse\<close> gives for them. The example parser is this table; it is only applied
  to texts of the table and to texts that are not JSON, on which \<^verbatim>\<open>JSON.parse\<close> throws.
\<close>

definition default_config :: config where
  "default_config = \<lparr>env_WALLET_ADDRESS = None\<rparr>"

definition startup :: server where
  "startup = \<lparr>payments = [], receipts = []\<rparr>"

definition example_env :: env where
  "example_env =
     \<lparr>Date_now_gate = 1738000000000,
      Date_now = 1738000000001,
      toISOString = ''2025-01-27T17:46:40.001Z'',
      uuidv4 = (\<lambda>k. if k = 0 then ''3b241101-e2bb-4255-8caf-4136c566a962''
                     else ''9c5b94b1-35ad-49bb-b118-8e8fc24abf80'')\<rparr>"

definition example_JSON :: "(string \<times> jsval) list" where
  \<open>example_JSON =
     [(''{"txHash":"0xabc"}'', JObj [(''txHash'', JStr ''0xabc'')]),
      (''{"txHash":"0xabc","signature":"0xsig"}'',
         JObj [(''txHash'', JStr ''0xabc''), (''signature'', JStr ''0xsig'')]),
      (''{"signature":"0xsig"}'', JObj [(''signature'', JStr ''0xsig'')]),
      (''{"txHash":"","signature":"0xsig"}'',
         JObj [(''txHash'', JStr []), (''signature'', JStr ''0xsig'')]),
      (''{}'', JObj []),
      (''null'', JNull),
      (''{"txHash":["0xabc"]}'', JObj [(''txHash'', JArr [JStr ''0xabc''])])]\<close>

definition example_parser :: json_parser where
  "example_parser = map_of example_JSON"

section \<open>Properties of the style validator\<close>

lemma isWhiteSpace_toLowerCase_char:
  "isWhiteSpace (toLowerCase_char c) = isWhiteSpace c"
  by (auto simp: isWhiteSpace_def toLowerCase_char_def Let_def)

lemma toLowerCase_all_white:
  assumes "\<forall>c\<in>set w. isWhiteSpace c"
  shows "\<forall>c\<in>set (String_toLowerCase w). isWhiteSpace c"
  using assms by (simp add: String_toLowerCase_def isWhiteSpace_toLowerCase_char)

lemma String_trim_padding:
  assumes l: "\<forall>c\<in>set l. isWhiteSpace c" and r: "\<forall>c\<in>set r. isWhiteSpace c"
  shows "String_trim (l @ s @ r) = String_trim s"
proof (cases "\<forall>c\<in>set s. isWhiteSpace c")
  case True
  with l r have "\<forall>c\<in>set (l @ s @ r). isWhiteSpace c" by auto
  then have "dropWhile isWhiteSpace (l @ s @ r) = []"
    by (simp only: dropWhile_eq_Nil_conv)
  moreover from True have "dropWhile isWhiteSpace s = []"
    by (simp only: dropWhile_eq_Nil_conv)
  ultimately show ?thesis by (simp only: String_trim_def)
next
  case False
  have "dropWhile isWhiteSpace (l @ s @ r) = dropWhile isWhiteSpace (s @ r)"
    using l by (simp add: dropWhile_append2)
  also have "\<dots> = dropWhile isWhiteSpace s @ r"
    using False by (auto simp: dropWhile_append1)
  finally have front: "dropWhile isWhiteSpace (l @ s @ r) = dropWhile isWhiteSpace s @ r" .
  have "dropWhile isWhiteSpace (rev r @ t) = dropWhile isWhiteSpace t" for t
    using r by (intro dropWhile_append2) simp
  with front show ?thesis by (simp only: String_trim_def rev_append)
qed

lemma DANCE_STYLES_normal:
  "\<forall>t\<in>set DANCE_STYLES. String_trim (String_toLowerCase t) = t"
  by code_simp

text \<open>
  Claim C8. \<open>validateStyle\<close> is a function of its argument alone. On a string it
  lower-cases, then trims, and returns the result when it is one of the recognised
  styles and \<^verbatim>\<open>null\<close> (the no-match sentinel) otherwise. A result other than the
  sentinel is returned unchanged when validated again (idempotence). Two strings that
  differ only in letter case validate alike, and so do a string and the same string
  padded with white space on either side; in particular \<^verbatim>\<open>"  KRUMP "\<close> and
  \<^verbatim>\<open>"krump"\<close> both give \<^verbatim>\<open>"krump"\<close>.
\<close>

theorem validateStyle_normalizes:
  "validateStyle (JStr s) =
     Inr (if String_trim (String_toLowerCase s) \<in> set DANCE_STYLES
          then JStr (String_trim (String_toLowerCase s)) else JNull)
   \<and> (validateStyle v = Inr r \<and> r \<noteq> JNull \<longrightarrow> validateStyle r = Inr r)
   \<and> (String_toLowerCase s = String_toLowerCase t \<longrightarrow>
        validateStyle (JStr s) = validateStyle (JStr t))
   \<and> ((\<forall>c\<in>set w1. isWhiteSpace c) \<and> (\<forall>c\<in>set w2. isWhiteSpace c) \<longrightarrow>
        validateStyle (JStr (w1 @ s @ w2)) = validateStyle (JStr s))
   \<and> validateStyle (JStr ''  KRUMP '') = Inr (JStr ''krump'')
   \<and> validateStyle (JStr ''krump'') = Inr (JStr ''krump'')"
proof -
  have idem: "validateStyle r = Inr r" if "validateStyle v = Inr r" "r \<noteq> JNull"
  proof -
    from that obtain u where u: "r = JStr u" "u \<in> set DANCE_STYLES"
      by (cases v) (auto simp: Let_def split: if_splits)
    then have "String_trim (String_toLowerCase u) = u"
      using DANCE_STYLES_normal by blast
    with u show ?thesis by simp
  qed
  have pad: "validateStyle (JStr (w1 @ s @ w2)) = validateStyle (JStr s)"
    if "\<forall>c\<in>set w1. isWhiteSpace c" "\<forall>c\<in>set w2. isWhiteSpace c"
  proof -
    have "String_trim (String_toLowerCase (w1 @ s @ w2)) = String_trim (String_toLowerCase s)"
      using String_trim_padding [OF toLowerCase_all_white [OF that(1)]
          toLowerCase_all_white [OF that(2)], of "String_toLowerCase s"]
      by (simp add: String_toLowerCase_def)
    then show ?thesis by simp
  qed
  have k1: "validateStyle (JStr ''  KRUMP '') = Inr (JStr ''krump'')" by code_simp
  have k2: "validateStyle (JStr ''krump'') = Inr (JStr ''krump'')" by code_simp
  show ?thesis using idem pad k1 k2 by (simp add: Let_def)
qed

theorem validateStyle_normalizes_witness:
  "validateStyle (JStr ''Hip-Hop'') = Inr (JStr ''hip-hop'')
   \<and> validateStyle (JStr ''hip-hop'') = Inr (JStr ''hip-hop'')
   \<and> validateStyle (JStr ''HIP-HOP'') = validateStyle (JStr ''hip-hop'')
   \<and> validateStyle (JStr ([CHR 0x09, CHR 0x20] @ ''Hip-Hop'' @ [CHR 0x0A])) =
       validateStyle (JStr ''Hip-Hop'')"
proof -
  have a: "validateStyle (JStr ''Hip-Hop'') = Inr (JStr ''hip-hop'')" by code_simp
  have b: "JStr ''hip-hop'' \<noteq> JNull" by simp
  have c: "String_toLowerCase ''HIP-HOP'' = String_toLowerCase ''hip-hop''" by code_simp
  have d: "\<forall>c\<in>set [CHR 0x09, CHR 0x20]. isWhiteSpace c" by code_simp
  have e: "\<forall>c\<in>set [CHR 0x0A]. isWhiteSpace c" by code_simp
  from validateStyle_normalizes [of "''Hip-Hop''" "JStr ''Hip-Hop''" "JStr ''hip-hop''"
      "''Hip-Hop''" "[CHR 0x09, CHR 0x20]" "[CHR 0x0A]"] a b d e
  have "validateStyle (JStr ''hip-hop'') = Inr (JStr ''hip-hop'')"
    and "validateStyle (JStr ([CHR 0x09, CHR 0x20] @ ''Hip-Hop'' @ [CHR 0x0A])) =
       validateStyle (JStr ''Hip-Hop'')"
    by blast+
  moreover from validateStyle_normalizes [of "''HIP-HOP''" _ _ "''hip-hop''"] c
  have "validateStyle (JStr ''HIP-HOP'') = validateStyle (JStr ''hip-hop'')" by blast
  ultimately show ?thesis using a by simp
qed


section \<open>The amount asked for\<close>

lemma to_double_million: "to_double 1000000 = 1000000"
  by code_simp

lemma price_of_move: "price_of ''verify/move'' = 1152921504606847 / 1152921504606846976"
  by code_simp

lemma price_of_video: "price_of ''verify/video'' = 5764607523034235 / 576460752303423488"
  by code_simp

lemma price_of_choreography:
  "price_of ''verify/choreography'' = 3602879701896397 / 72057594037927936"
  by code_simp

lemma price_of_attribution:
  "price_of ''verify/attribution'' = 5764607523034235 / 1152921504606846976"
  by code_simp

lemma times_move: "Number_times (1152921504606847 / 1152921504606846976) 1000000 = 1000"
  by code_simp

lemma times_video: "Number_times (5764607523034235 / 576460752303423488) 1000000 = 10000"
  by code_simp

lemma times_choreography: "Number_times (3602879701896397 / 72057594037927936) 1000000 = 50000"
  by code_simp

lemma times_attribution: "Number_times (5764607523034235 / 1152921504606846976) 1000000 = 5000"
  by code_simp

lemma digits_1000: "String_of_int 1000 = ''1000''"
  by (simp add: String_of_int_def decimal.simps digit_char_def)

lemma digits_10000: "String_of_int 10000 = ''10000''"
  by (simp add: String_of_int_def decimal.simps digit_char_def)

lemma digits_50000: "String_of_int 50000 = ''50000''"
  by (simp add: String_of_int_def decimal.simps digit_char_def)

lemma digits_5000: "String_of_int 5000 = ''5000''"
  by (simp add: String_of_int_def decimal.simps digit_char_def)

lemma payment_amount_move: "payment_amount ''verify/move'' = ''1000''"
  by (simp add: payment_amount_def price_of_move to_double_million times_move Math_floor_def
      digits_1000)

lemma payment_amount_video: "payment_amount ''verify/video'' = ''10000''"
  by (simp add: payment_amount_def price_of_video to_double_million times_video Math_floor_def
      digits_10000)

lemma payment_amount_choreography: "payment_amount ''verify/choreography'' = ''50000''"
  by (simp add: payment_amount_def price_of_choreography to_double_million times_choreography
      Math_floor_def digits_50000)

lemma payment_amount_attribution: "payment_amount ''verify/attribution'' = ''5000''"
  by (simp add: payment_amount_def price_of_attribution to_double_million times_attribution
      Math_floor_def digits_5000)

lemma handle_without_header:
  "handle cfg JSON_parse op e \<lparr>x402_payment = None, req_body = b\<rparr> srv =
     (PaymentRequired cfg (endpoint op), srv)"
  by (simp add: handle_def x402Middleware_def)

section \<open>The record of used proofs only grows\<close>

lemma Map_has_Map_set_same: "\<not> by_identity k \<Longrightarrow> Map_has (Map_set m k v) k"
  by (simp add: Map_has_def Map_set_def dom_update)

lemma Map_has_Map_set_other: "Map_has m k \<Longrightarrow> Map_has (Map_set m k' v) k"
  by (auto simp: Map_has_def Map_set_def dom_update)

lemma get_prop_field:
  "\<not> no_properties p \<Longrightarrow> get_prop p k = Inr (field p k)"
  by (cases p) (auto simp: field_def no_properties_def split: option.splits)

lemma field_no_properties: "no_properties p \<Longrightarrow> field p k = JUndefined"
  by (auto simp: field_def no_properties_def)

text \<open>The gate on a header that is there and not empty, case by case.\<close>

lemma gate_cases:
  assumes "h \<noteq> []"
  shows "x402Middleware cfg P ep now ps (Some h) =
     (case P h of
        None \<Rightarrow> (Some PaymentInvalid, ps)
      | Some p \<Rightarrow>
          if \<not> carries p ''txHash'' \<and> \<not> carries p ''signature'' then (Some PaymentInvalid, ps)
          else if carries p ''txHash'' \<and> Map_has ps (field p ''txHash'') then
            (Some PaymentInvalid, ps)
          else (None, if carries p ''txHash'' then Map_set ps (field p ''txHash'') now else ps))"
proof (cases "P h")
  case None
  with assms show ?thesis
    by (simp add: x402Middleware_def verifyPayment_def verifyPayment_try_def)
next
  case (Some p)
  show ?thesis
  proof (cases "no_properties p")
    case True
    with Some assms show ?thesis
      by (auto simp: x402Middleware_def verifyPayment_def verifyPayment_try_def carries_def
          field_no_properties no_properties_def)
  next
    case False
    with Some assms show ?thesis
      by (simp add: x402Middleware_def verifyPayment_def verifyPayment_try_def carries_def
          get_prop_field)
  qed
qed

lemma gate_payments_mono:
  assumes "Map_has ps k"
  shows "Map_has (snd (x402Middleware cfg P ep now ps hdr)) k"
proof (cases "hdr = None \<or> hdr = Some []")
  case True
  with assms show ?thesis by (auto simp: x402Middleware_def)
next
  case False
  then obtain h where "hdr = Some h" "h \<noteq> []" by (cases hdr) auto
  with assms show ?thesis
    by (auto simp: gate_cases Map_has_Map_set_other split: option.splits)
qed

lemma handle_payments:
  "payments (snd (handle cfg P op e req srv)) =
     snd (x402Middleware cfg P (endpoint op) (Date_now_gate e) (payments srv) (x402_payment req))"
  by (auto simp: handle_def split: prod.splits option.splits)

lemma handle_payments_mono:
  "Map_has (payments srv) k \<Longrightarrow> Map_has (payments (snd (handle cfg P op e req srv))) k"
  by (simp add: handle_payments gate_payments_mono)

lemma serve_payments_mono:
  "Map_has (payments srv) k \<Longrightarrow> Map_has (payments (serve cfg P reqs srv)) k"
  by (induction reqs arbitrary: srv) (auto simp: handle_payments_mono)

lemma handle_rejects_used:
  assumes "h \<noteq> []" "P h = Some p" "carries p ''txHash''"
    and "Map_has (payments srv) (field p ''txHash'')"
  shows "handle cfg P op e \<lparr>x402_payment = Some h, req_body = b\<rparr> srv = (PaymentInvalid, srv)"
  using assms by (simp add: handle_def gate_cases)

lemma passes_records:
  assumes "h \<noteq> []" "P h = Some p" "carries p ''txHash''" "\<not> by_identity (field p ''txHash'')"
    and "passes cfg P op e \<lparr>x402_payment = Some h, req_body = b\<rparr> srv"
  shows "Map_has (payments (snd (handle cfg P op e \<lparr>x402_payment = Some h, req_body = b\<rparr> srv)))
           (field p ''txHash'')"
  using assms
  by (auto simp: handle_payments passes_def gate_cases Map_has_Map_set_same split: if_splits)

lemma passes_nonempty:
  "passes cfg P op e \<lparr>x402_payment = Some h, req_body = b\<rparr> srv \<Longrightarrow> h \<noteq> []"
  by (auto simp: passes_def x402Middleware_def)

section \<open>Claims about the payment gate\<close>

lemma gate_answers:
  "fst (x402Middleware cfg P ep now ps hdr) = None
   \<or> fst (x402Middleware cfg P ep now ps hdr) = Some (PaymentRequired cfg ep)
   \<or> fst (x402Middleware cfg P ep now ps hdr) = Some PaymentInvalid"
  by (auto simp: x402Middleware_def split: prod.splits)

lemma error_tag_PaymentRequired: "error_tag (PaymentRequired cfg ep) = Some ''Payment Required''"
  by (simp add: PaymentRequired_def field_def)

lemma error_tag_PaymentInvalid: "error_tag PaymentInvalid = Some ''Invalid Payment''"
  by (simp add: PaymentInvalid_def field_def)

lemma PaymentRequired_not_Invalid: "PaymentRequired cfg ep \<noteq> PaymentInvalid"
  by (simp add: PaymentRequired_def PaymentInvalid_def)

text \<open>
  Claim C2. For each of the four protected operations, a request with no payment-proof
  header is answered \<open>PaymentRequired\<close> (status 402, error \<^verbatim>\<open>Payment Required\<close>), whatever
  its body and whatever the state of the server, and the state is left as it was. The
  payment instructions of the answer, in its body and in its \<^verbatim>\<open>x-402-payment\<close> header,
  carry as amount the digits of \<^verbatim>\<open>Math.floor(price * 1e6)\<close> computed in binary64
  arithmetic: 1000, 10000, 50000 and 5000 for the move, video, choreography and
  attribution operations. That is also the floor of the decimal price of the pricing
  table times one million, computed exactly.
\<close>

theorem payment_required_amount:
  "handle cfg JSON_parse op e \<lparr>x402_payment = None, req_body = b\<rparr> srv =
     (PaymentRequired cfg (endpoint op), srv)
   \<and> http_status (PaymentRequired cfg (endpoint op)) = 402
   \<and> error_tag (PaymentRequired cfg (endpoint op)) = Some ''Payment Required''
   \<and> member2 (PaymentRequired cfg (endpoint op)) ''payment'' ''amount'' =
       JStr (payment_amount (endpoint op))
   \<and> map_of (headers (PaymentRequired cfg (endpoint op))) ''x-402-payment'' =
       Some (JSON_stringify_members (payment_members cfg (endpoint op)))
   \<and> map_of (payment_members cfg (endpoint op)) ''amount'' =
       Some (Text (payment_amount (endpoint op)))
   \<and> payment_amount (endpoint op) =
       (case op of Move \<Rightarrow> ''1000'' | Video \<Rightarrow> ''10000''
        | Choreography \<Rightarrow> ''50000'' | Attribution \<Rightarrow> ''5000'')
   \<and> (\<exists>price. map_of PRICES (endpoint op) = Some price
         \<and> payment_amount (endpoint op) = String_of_int \<lfloor>price * 1000000\<rfloor>)"
proof -
  have amount: "payment_amount (endpoint op) =
       (case op of Move \<Rightarrow> ''1000'' | Video \<Rightarrow> ''10000''
        | Choreography \<Rightarrow> ''50000'' | Attribution \<Rightarrow> ''5000'')"
    by (cases op)
      (simp_all add: payment_amount_move payment_amount_video payment_amount_choreography
        payment_amount_attribution)
  have exact: "\<exists>price. map_of PRICES (endpoint op) = Some price
         \<and> payment_amount (endpoint op) = String_of_int \<lfloor>price * 1000000\<rfloor>"
  proof (cases op)
    case Move
    show ?thesis unfolding Move endpoint.simps payment_amount_move
      by (rule exI [of _ "1 / 1000"]) (simp add: PRICES_def digits_1000)
  next
    case Video
    show ?thesis unfolding Video endpoint.simps payment_amount_video
      by (rule exI [of _ "1 / 100"]) (simp add: PRICES_def digits_10000)
  next
    case Choreography
    show ?thesis unfolding Choreography endpoint.simps payment_amount_choreography
      by (rule exI [of _ "5 / 100"]) (simp add: PRICES_def digits_50000)
  next
    case Attribution
    show ?thesis unfolding Attribution endpoint.simps payment_amount_attribution
      by (rule exI [of _ "5 / 1000"]) (simp add: PRICES_def digits_5000)
  qed
  have body: "member2 (PaymentRequired cfg (endpoint op)) ''payment'' ''amount'' =
       JStr (payment_amount (endpoint op))"
    by (simp add: member2_def PaymentRequired_def field_def payment_instructions_def
        payment_members_def)
  have header: "map_of (headers (PaymentRequired cfg (endpoint op))) ''x-402-payment'' =
       Some (JSON_stringify_members (payment_members cfg (endpoint op)))"
    by (simp add: PaymentRequired_def createPaymentRequired_def)
  have members: "map_of (payment_members cfg (endpoint op)) ''amount'' =
       Some (Text (payment_amount (endpoint op)))"
    by (simp add: payment_members_def)
  have status: "http_status (PaymentRequired cfg (endpoint op)) = 402"
    by (simp add: PaymentRequired_def)
  show ?thesis
    using amount exact body header members status
    by (simp only: handle_without_header error_tag_PaymentRequired simp_thms)
qed




text \<open>
  Claim C9. For every proof header that parses (so it is not empty) to a proof that
  carries a signature and no transaction reference, the gate lets the request pass and leaves the record of used
  proofs as it was, in every state of that record. So the same header passes again
  after any further requests: only a transaction reference is ever recorded.
\<close>

theorem signature_only_passes_again:
  assumes "h \<noteq> []" and "P h = Some p"
    and "carries p ''signature''" and "\<not> carries p ''txHash''"
  shows "x402Middleware cfg P ep now ps (Some h) = (None, ps)
         \<and> passes cfg P op e \<lparr>x402_payment = Some h, req_body = b\<rparr> srv
         \<and> payments (snd (handle cfg P op e \<lparr>x402_payment = Some h, req_body = b\<rparr> srv)) =
             payments srv
         \<and> passes cfg P op' e' \<lparr>x402_payment = Some h, req_body = b'\<rparr>
             (serve cfg P later (snd (handle cfg P op e \<lparr>x402_payment = Some h, req_body = b\<rparr> srv)))"
proof -
  have gate: "x402Middleware cfg P ep' now' ps' (Some h) = (None, ps')" for ep' now' ps'
    using assms by (simp add: gate_cases)
  show ?thesis
    by (simp add: gate passes_def handle_payments)
qed

theorem signature_only_passes_again_witness:
  \<open>x402Middleware default_config example_parser ''verify/video'' 7
       [(JStr ''0xabc'', 3)] (Some ''{"signature":"0xsig"}'') = (None, [(JStr ''0xabc'', 3)])
   \<and> passes default_config example_parser Move example_env
        \<lparr>x402_payment = Some ''{"signature":"0xsig"}'', req_body = JObj []\<rparr>
        (snd (handle default_config example_parser Video example_env
               \<lparr>x402_payment = Some ''{"signature":"0xsig"}'', req_body = JObj []\<rparr> startup))\<close>
proof -
  have n: \<open>''{"signature":"0xsig"}'' \<noteq> []\<close> by simp
  have p: \<open>example_parser ''{"signature":"0xsig"}'' = Some (JObj [(''signature'', JStr ''0xsig'')])\<close>
    by (simp add: example_parser_def example_JSON_def)
  have s: "carries (JObj [(''signature'', JStr ''0xsig'')]) ''signature''"
    and t: "\<not> carries (JObj [(''signature'', JStr ''0xsig'')]) ''txHash''"
    by (simp_all add: carries_def field_def)
  from signature_only_passes_again [where P = example_parser
      and h = \<open>''{"signature":"0xsig"}''\<close> and cfg = default_config
      and ep = "''verify/video''" and now = 7 and ps = "[(JStr ''0xabc'', 3)]" and op = Video
      and e = example_env and b = "JObj []" and srv = startup and op' = Move
      and e' = example_env and b' = "JObj []" and later = "[]", OF n p s t]
  show ?thesis by simp
qed

text \<open>
  Claim C1. A proof carries the transaction reference \<open>r\<close> when its \<^verbatim>\<open>txHash\<close> is the
  string \<open>r\<close> and the gate's own test \<^verbatim>\<open>payment.txHash\<close> finds it there (an empty string
  is falsy, so a proof whose \<^verbatim>\<open>txHash\<close> is empty carries no reference and is the
  signature-only case of claim C9). For every string \<open>r\<close>: once the gate has let pass a
  request with a proof that carries \<open>r\<close>, then after any further requests to the
  protected routes every request presenting a proof whose \<^verbatim>\<open>txHash\<close> is \<open>r\<close> is answered
  \<open>PaymentInvalid\<close> and changes nothing, whatever the other members of its proof, its
  body and the operation it addresses.
\<close>

theorem reference_single_use:
  assumes "P h = Some p" and "carries p ''txHash''" and "field p ''txHash'' = JStr r"
    and "passes cfg P op e \<lparr>x402_payment = Some h, req_body = b\<rparr> srv"
    and "h' \<noteq> []" and "P h' = Some p'" and "field p' ''txHash'' = JStr r"
  shows "handle cfg P op' e' \<lparr>x402_payment = Some h', req_body = b'\<rparr>
           (serve cfg P later
              (snd (handle cfg P op e \<lparr>x402_payment = Some h, req_body = b\<rparr> srv))) =
         (PaymentInvalid,
          serve cfg P later
            (snd (handle cfg P op e \<lparr>x402_payment = Some h, req_body = b\<rparr> srv)))"
proof -
  let ?s = "snd (handle cfg P op e \<lparr>x402_payment = Some h, req_body = b\<rparr> srv)"
  have "h \<noteq> []" using assms(4) by (rule passes_nonempty)
  then have "Map_has (payments ?s) (field p ''txHash'')"
    using assms(1,2,3,4) by (intro passes_records) simp_all
  then have "Map_has (payments (serve cfg P later ?s)) (field p ''txHash'')"
    by (rule serve_payments_mono)
  then have "Map_has (payments (serve cfg P later ?s)) (field p' ''txHash'')"
    by (simp only: assms(3,7))
  moreover have "carries p' ''txHash''"
    using assms(2,3,7) by (simp add: carries_def)
  ultimately show ?thesis
    using assms(5,6) by (intro handle_rejects_used)
qed

theorem reference_single_use_witness:
  \<open>passes default_config example_parser Move example_env
      \<lparr>x402_payment = Some ''{"txHash":"0xabc"}'', req_body = JObj []\<rparr> startup
   \<and> fst (handle default_config example_parser Attribution example_env
        \<lparr>x402_payment = Some ''{"txHash":"0xabc","signature":"0xsig"}'', req_body = JObj []\<rparr>
        (serve default_config example_parser
           [(Video, example_env, \<lparr>x402_payment = Some ''{"signature":"0xsig"}'', req_body = JObj []\<rparr>)]
           (snd (handle default_config example_parser Move example_env
                  \<lparr>x402_payment = Some ''{"txHash":"0xabc"}'', req_body = JObj []\<rparr> startup)))) =
       PaymentInvalid\<close>
proof -
  have p1: \<open>example_parser ''{"txHash":"0xabc"}'' = Some (JObj [(''txHash'', JStr ''0xabc'')])\<close>
    by (simp add: example_parser_def example_JSON_def)
  have c1: "carries (JObj [(''txHash'', JStr ''0xabc'')]) ''txHash''"
    and f1: "field (JObj [(''txHash'', JStr ''0xabc'')]) ''txHash'' = JStr ''0xabc''"
    by (simp_all add: carries_def field_def)
  have n2: \<open>''{"txHash":"0xabc","signature":"0xsig"}'' \<noteq> []\<close> by simp
  have p2: \<open>example_parser ''{"txHash":"0xabc","signature":"0xsig"}'' =
      Some (JObj [(''txHash'', JStr ''0xabc''), (''signature'', JStr ''0xsig'')])\<close>
    by (simp add: example_parser_def example_JSON_def)
  have f2: "field (JObj [(''txHash'', JStr ''0xabc''), (''signature'', JStr ''0xsig'')]) ''txHash'' =
      JStr ''0xabc''"
    by (simp add: field_def)
  have pass: \<open>passes default_config example_parser Move example_env
      \<lparr>x402_payment = Some ''{"txHash":"0xabc"}'', req_body = JObj []\<rparr> startup\<close>
    by (simp add: passes_def gate_cases p1 c1 f1 startup_def Map_has_def)
  from reference_single_use [where P = example_parser
      and h = \<open>''{"txHash":"0xabc"}''\<close>
      and h' = \<open>''{"txHash":"0xabc","signature":"0xsig"}''\<close>
      and op' = Attribution and e' = example_env and b' = "JObj []"
      and later = \<open>[(Video, example_env,
          \<lparr>x402_payment = Some ''{"signature":"0xsig"}'', req_body = JObj []\<rparr>)]\<close>,
      OF p1 c1 f1 pass n2 p2 f2]
    pass
  show ?thesis by simp
qed

section \<open>Claims about the order of the gate and the handlers\<close>

lemma error_tag_BadRequest: "error_tag (BadRequest m) = Some ''Bad Request''"
  by (simp add: BadRequest_def field_def)

lemma error_tag_InvalidStyle: "error_tag (InvalidStyle s) = Some ''Invalid Style''"
  by (simp add: InvalidStyle_def field_def)








lemma handle_when_passes:
  assumes "passes cfg P op e req srv"
  shows "handle cfg P op e req srv =
     (fst (handler op cfg e (req_body req) (receipts srv)),
      \<lparr>payments = snd (x402Middleware cfg P (endpoint op) (Date_now_gate e) (payments srv)
                          (x402_payment req)),
       receipts = snd (handler op cfg e (req_body req) (receipts srv))\<rparr>)"
  using assms by (auto simp: handle_def passes_def split: prod.splits option.splits)

lemma handle_when_blocked:
  assumes "\<not> passes cfg P op e req srv"
  shows "(fst (handle cfg P op e req srv) = PaymentRequired cfg (endpoint op)
          \<or> fst (handle cfg P op e req srv) = PaymentInvalid)
         \<and> receipts (snd (handle cfg P op e req srv)) = receipts srv"
  using assms
    gate_answers [of cfg P "endpoint op" "Date_now_gate e" "payments srv" "x402_payment req"]
  by (auto simp: handle_def passes_def split: prod.splits option.splits)

lemma rejected_passes:
  assumes "error_tag (fst (handle cfg P op e req srv)) = Some ''Bad Request''
           \<or> error_tag (fst (handle cfg P op e req srv)) = Some ''Invalid Style''"
  shows "passes cfg P op e req srv"
proof (rule ccontr)
  assume "\<not> passes cfg P op e req srv"
  from handle_when_blocked [OF this] assms show False
    by (auto simp: error_tag_PaymentRequired error_tag_PaymentInvalid)
qed

text \<open>
  Claim C4. On every protected route the gate runs before the handler. A request with
  no payment-proof header is answered \<open>PaymentRequired\<close> whatever its body is, so also
  when required fields are missing or the style is not recognised. An answer
  \<^verbatim>\<open>Bad Request\<close> or \<^verbatim>\<open>Invalid Style\<close> is only ever given to a request that the gate has
  let pass: a request the gate stops is answered \<open>PaymentRequired\<close> or \<open>PaymentInvalid\<close>
  and no receipt is minted, and a request it lets pass gets the handler's answer.
\<close>

theorem gate_before_validation:
  "handle cfg P op e \<lparr>x402_payment = None, req_body = b\<rparr> srv =
     (PaymentRequired cfg (endpoint op), srv)
   \<and> (error_tag (fst (handle cfg P op e req srv)) = Some ''Bad Request''
        \<or> error_tag (fst (handle cfg P op e req srv)) = Some ''Invalid Style''
       \<longrightarrow> passes cfg P op e req srv)
   \<and> (\<not> passes cfg P op e req srv \<longrightarrow>
        (fst (handle cfg P op e req srv) = PaymentRequired cfg (endpoint op)
         \<or> fst (handle cfg P op e req srv) = PaymentInvalid)
        \<and> receipts (snd (handle cfg P op e req srv)) = receipts srv)
   \<and> (passes cfg P op e req srv \<longrightarrow>
        fst (handle cfg P op e req srv) = fst (handler op cfg e (req_body req) (receipts srv)))"
proof (intro conjI impI)
  show "handle cfg P op e \<lparr>x402_payment = None, req_body = b\<rparr> srv =
     (PaymentRequired cfg (endpoint op), srv)"
    by (rule handle_without_header)
next
  assume "error_tag (fst (handle cfg P op e req srv)) = Some ''Bad Request''
        \<or> error_tag (fst (handle cfg P op e req srv)) = Some ''Invalid Style''"
  then show "passes cfg P op e req srv" by (rule rejected_passes)
next
  assume "\<not> passes cfg P op e req srv"
  then show "fst (handle cfg P op e req srv) = PaymentRequired cfg (endpoint op)
         \<or> fst (handle cfg P op e req srv) = PaymentInvalid"
    by (simp add: handle_when_blocked)
next
  assume "\<not> passes cfg P op e req srv"
  then show "receipts (snd (handle cfg P op e req srv)) = receipts srv"
    by (simp add: handle_when_blocked)
next
  assume "passes cfg P op e req srv"
  then show "fst (handle cfg P op e req srv) = fst (handler op cfg e (req_body req) (receipts srv))"
    by (simp add: handle_when_passes)
qed

theorem gate_before_validation_witness:
  \<open>error_tag (fst (handle default_config example_parser Move example_env
       \<lparr>x402_payment = Some ''{"txHash":"0xabc"}'', req_body = JObj []\<rparr> startup)) =
     Some ''Bad Request''
   \<and> passes default_config example_parser Move example_env
       \<lparr>x402_payment = Some ''{"txHash":"0xabc"}'', req_body = JObj []\<rparr> startup
   \<and> fst (handle default_config example_parser Move example_env
       \<lparr>x402_payment = Some ''not json'', req_body = JObj []\<rparr> startup) = PaymentInvalid
   \<and> receipts (snd (handle default_config example_parser Move example_env
       \<lparr>x402_payment = Some ''not json'', req_body = JObj []\<rparr> startup)) = []\<close>
proof -
  have p1: \<open>example_parser ''{"txHash":"0xabc"}'' = Some (JObj [(''txHash'', JStr ''0xabc'')])\<close>
    by (simp add: example_parser_def example_JSON_def)
  have a: \<open>error_tag (fst (handle default_config example_parser Move example_env
       \<lparr>x402_payment = Some ''{"txHash":"0xabc"}'', req_body = JObj []\<rparr> startup)) =
     Some ''Bad Request''\<close>
    by (simp add: handle_def gate_cases p1 carries_def field_def startup_def Map_has_def
        verify_move_def no_properties_def error_tag_BadRequest)
  have b: "\<not> passes default_config example_parser Move example_env
       \<lparr>x402_payment = Some ''not json'', req_body = JObj []\<rparr> startup"
    by (simp add: passes_def gate_cases example_parser_def example_JSON_def)
  have c: "PaymentRequired default_config (endpoint Move) \<noteq>
      fst (handle default_config example_parser Move example_env
       \<lparr>x402_payment = Some ''not json'', req_body = JObj []\<rparr> startup)"
    by (simp add: handle_def gate_cases example_parser_def example_JSON_def
        PaymentRequired_not_Invalid)
  have d: "receipts startup = []" by (simp add: startup_def)
  from gate_before_validation [where P = example_parser and cfg = default_config and op = Move
      and e = example_env and srv = startup
      and req = \<open>\<lparr>x402_payment = Some ''{"txHash":"0xabc"}'', req_body = JObj []\<rparr>\<close>] a
  have e: \<open>passes default_config example_parser Move example_env
       \<lparr>x402_payment = Some ''{"txHash":"0xabc"}'', req_body = JObj []\<rparr> startup\<close>
    by blast
  from gate_before_validation [where P = example_parser and cfg = default_config and op = Move
      and e = example_env and srv = startup
      and req = "\<lparr>x402_payment = Some ''not json'', req_body = JObj []\<rparr>"] b c d
  have f: "fst (handle default_config example_parser Move example_env
       \<lparr>x402_payment = Some ''not json'', req_body = JObj []\<rparr> startup) = PaymentInvalid
     \<and> receipts (snd (handle default_config example_parser Move example_env
       \<lparr>x402_payment = Some ''not json'', req_body = JObj []\<rparr> startup)) = []"
    by metis
  from a e f show ?thesis by blast
qed

section \<open>A reference is spent even when the request is then refused\<close>




section \<open>Claims about the verification operations\<close>

lemma receipt_request:
  "field (fst (generateReceipt cfg e k ((''type'', t) # (''request'', rq) # rest) rcs))
     ''request'' = rq"
  by (simp add: generateReceipt_def Let_def field_def)

lemma receipt_result:
  "field (fst (generateReceipt cfg e k ((''type'', t) # (''request'', rq) # (''result'', r) # rest)
     rcs)) ''result'' = r"
  by (simp add: generateReceipt_def Let_def field_def)

lemma field_JObj:
  "field (JObj kvs) k = (case map_of kvs k of Some v \<Rightarrow> v | None \<Rightarrow> JUndefined)"
  by (simp add: field_def split: option.splits)

lemma style_or_other_unrecognized:
  assumes "s \<noteq> []" and "String_trim (String_toLowerCase s) \<notin> set DANCE_STYLES"
  shows "style_or_other (JStr s) = Inr JNull"
  using assms by (simp add: style_or_other_def Let_def)

lemma style_or_other_missing: "\<not> truthy style \<Longrightarrow> style_or_other style = Inr (JStr ''other'')"
  by (simp add: style_or_other_def)

text \<open>What the three handlers that tolerate any style answer once the style is resolved.\<close>

lemma tolerant_handler_style:
  assumes "op \<noteq> Move" and "\<not> no_properties b" and "has_required op b"
    and "style_or_other (field b ''style'') = Inr validStyle"
    and "validStyle \<noteq> JStr ''krump''"
  shows "http_status (fst (handler op cfg e b rs)) = 200
         \<and> member2 (fst (handler op cfg e b rs)) ''request'' ''style'' = validStyle"
proof (cases op)
  case Move
  with assms(1) show ?thesis by simp
next
  case Video
  with assms show ?thesis
    by (simp add: verify_video_def Let_def split_beta member2_def receipt_request field_JObj)
next
  case Choreography
  with assms show ?thesis
    by (auto simp: verify_choreography_def Let_def split_beta member2_def receipt_request
        field_JObj)
next
  case Attribution
  with assms show ?thesis
    by (simp add: verify_attribution_def Let_def split_beta member2_def receipt_request
        field_JObj)
qed

lemma not_a_style: "validateStyle (JStr ''not-a-style'') = Inr JNull"
  by code_simp

text \<open>
  Claim C3, as amended. For the video, choreography and attribution operations, a
  request that has the required fields and supplies a style string that is not empty
  and not in the recognised set is not refused: the operation proceeds and the receipt
  records the style as \<^verbatim>\<open>null\<close>, the validator's no-match sentinel. The catch-all
  \<^verbatim>\<open>other\<close> is recorded when the style is missing.
\<close>

theorem unrecognized_style_recorded_as_null:
  assumes "op \<noteq> Move" and "\<not> no_properties b" and "has_required op b"
  shows "(field b ''style'' = JStr s \<and> s \<noteq> []
            \<and> String_trim (String_toLowerCase s) \<notin> set DANCE_STYLES \<longrightarrow>
          http_status (fst (handler op cfg e b rs)) = 200
          \<and> member2 (fst (handler op cfg e b rs)) ''request'' ''style'' = JNull)
       \<and> (\<not> truthy (field b ''style'') \<longrightarrow>
          http_status (fst (handler op cfg e b rs)) = 200
          \<and> member2 (fst (handler op cfg e b rs)) ''request'' ''style'' = JStr ''other'')"
proof (intro conjI impI)
  assume "field b ''style'' = JStr s \<and> s \<noteq> []
            \<and> String_trim (String_toLowerCase s) \<notin> set DANCE_STYLES"
  then have "style_or_other (field b ''style'') = Inr JNull"
    by (simp add: style_or_other_unrecognized)
  from tolerant_handler_style [OF assms this]
  show "http_status (fst (handler op cfg e b rs)) = 200"
    and "member2 (fst (handler op cfg e b rs)) ''request'' ''style'' = JNull"
    by simp_all
next
  assume "\<not> truthy (field b ''style'')"
  then have "style_or_other (field b ''style'') = Inr (JStr ''other'')"
    by (rule style_or_other_missing)
  from tolerant_handler_style [OF assms this]
  show "http_status (fst (handler op cfg e b rs)) = 200"
    and "member2 (fst (handler op cfg e b rs)) ''request'' ''style'' = JStr ''other''"
    by simp_all
qed
theorem unrecognized_style_recorded_as_null_witness:
  "http_status (fst (handler Choreography default_config example_env
       (JObj [(''moves'', JArr [JStr ''stomp'']), (''style'', JStr ''not-a-style'')]) [])) = 200
   \<and> member2 (fst (handler Choreography default_config example_env
       (JObj [(''moves'', JArr [JStr ''stomp'']), (''style'', JStr ''not-a-style'')]) []))
       ''request'' ''style'' = JNull
   \<and> member2 (fst (handler Attribution default_config example_env
       (JObj [(''move_name'', JStr ''stomp''), (''claimed_creator'', JStr ''Big Mijo'')]) []))
       ''request'' ''style'' = JStr ''other''"
proof -
  let ?b = "JObj [(''moves'', JArr [JStr ''stomp'']), (''style'', JStr ''not-a-style'')]"
  let ?c = "JObj [(''move_name'', JStr ''stomp''), (''claimed_creator'', JStr ''Big Mijo'')]"
  have m1: "Choreography \<noteq> Move" and n1: "Attribution \<noteq> Move" by simp_all
  have m2: "\<not> no_properties ?b" and n2: "\<not> no_properties ?c" by (simp_all add: no_properties_def)
  have m3: "has_required Choreography ?b" and n3: "has_required Attribution ?c"
    by (simp_all add: field_JObj)
  have m4: "field ?b ''style'' = JStr ''not-a-style''" by (simp add: field_JObj)
  have m5: "''not-a-style'' \<noteq> []" by simp
  have m6: "String_trim (String_toLowerCase ''not-a-style'') \<notin> set DANCE_STYLES" by code_simp
  have m7: "\<not> truthy (field ?c ''style'')" by (simp add: field_JObj)
  from unrecognized_style_recorded_as_null [OF m1 m2 m3, of "''not-a-style''" default_config
      example_env "[]"] m4 m5 m6
  have a: "http_status (fst (handler Choreography default_config example_env ?b [])) = 200
     \<and> member2 (fst (handler Choreography default_config example_env ?b [])) ''request'' ''style'' =
         JNull"
    by blast
  from unrecognized_style_recorded_as_null [OF n1 n2 n3, of _ default_config example_env "[]"] m7
  have b: "member2 (fst (handler Attribution default_config example_env ?c [])) ''request'' ''style'' =
      JStr ''other''"
    by blast
  from a b show ?thesis by blast
qed

lemma example_passes:
  \<open>passes default_config example_parser op example_env
      \<lparr>x402_payment = Some ''{"txHash":"0xabc"}'', req_body = b\<rparr> startup\<close>
  by (simp add: passes_def gate_cases example_parser_def example_JSON_def carries_def field_JObj
      startup_def Map_has_def)

text \<open>
  Claim C3 as it is written fails: a paid request to the video operation with the
  style \<^verbatim>\<open>not-a-style\<close>, which the validator does not recognise, gets a receipt whose
  style is \<^verbatim>\<open>null\<close>, where the same request without a style gets \<^verbatim>\<open>other\<close>.
\<close>

theorem unrecognized_style_counterexample:
  \<open>validateStyle (JStr ''not-a-style'') = Inr JNull
   \<and> http_status (fst (handle default_config example_parser Video example_env
        \<lparr>x402_payment = Some ''{"txHash":"0xabc"}'',
         req_body = JObj [(''video_url'', JStr ''https://example.com/v.mp4''),
                          (''style'', JStr ''not-a-style'')]\<rparr> startup)) = 200
   \<and> member2 (fst (handle default_config example_parser Video example_env
        \<lparr>x402_payment = Some ''{"txHash":"0xabc"}'',
         req_body = JObj [(''video_url'', JStr ''https://example.com/v.mp4''),
                          (''style'', JStr ''not-a-style'')]\<rparr> startup))
       ''request'' ''style'' = JNull
   \<and> member2 (fst (handle default_config example_parser Video example_env
        \<lparr>x402_payment = Some ''{"txHash":"0xabc"}'',
         req_body = JObj [(''video_url'', JStr ''https://example.com/v.mp4'')]\<rparr> startup))
       ''request'' ''style'' = JStr ''other''\<close>
proof -
  let ?b = "JObj [(''video_url'', JStr ''https://example.com/v.mp4''),
                  (''style'', JStr ''not-a-style'')]"
  let ?c = "JObj [(''video_url'', JStr ''https://example.com/v.mp4'')]"
  have "style_or_other (field ?b ''style'') = Inr JNull"
    by (simp add: field_JObj style_or_other_def not_a_style del: validateStyle.simps)
  then have b: "http_status (fst (handler Video default_config example_env ?b [])) = 200
     \<and> member2 (fst (handler Video default_config example_env ?b [])) ''request'' ''style'' = JNull"
    by (intro tolerant_handler_style) (simp_all add: no_properties_def field_JObj)
  have "style_or_other (field ?c ''style'') = Inr (JStr ''other'')"
    by (simp add: field_JObj style_or_other_def)
  then have c: "member2 (fst (handler Video default_config example_env ?c [])) ''request'' ''style'' =
      JStr ''other''"
    using tolerant_handler_style [of Video ?c "JStr ''other''" default_config example_env "[]"]
    by (simp add: no_properties_def field_JObj)
  have s: "receipts startup = []" by (simp add: startup_def)
  show ?thesis
    using b c
    by (simp add: handle_when_passes [OF example_passes] not_a_style s
        del: validateStyle.simps)
qed

text \<open>
  Claim C6, as amended. For the choreography operation, whenever the body supplies a
  moves list that is not empty and the style is missing or a string, a receipt is
  minted whose result has \<^verbatim>\<open>move_count\<close> equal to the length of that list. The sentinel
  \<^verbatim>\<open>pending_analysis\<close> stands for \<^verbatim>\<open>move_count\<close> when the list supplied is empty and when
  no moves are supplied, and for a list in no other case.
\<close>

theorem move_count_of_choreography:
  assumes "\<not> no_properties b"
    and "style_or_other (field b ''style'') = Inr validStyle"
  shows "(field b ''moves'' = JArr xs \<longrightarrow>
            http_status (fst (verify_choreography cfg e b rs)) = 200
            \<and> member2 (fst (verify_choreography cfg e b rs)) ''result'' ''move_count'' =
                (if xs = [] then JStr ''pending_analysis'' else JNum (of_nat (length xs))))
       \<and> (\<not> truthy (field b ''moves'') \<and> truthy (field b ''video_url'') \<longrightarrow>
            http_status (fst (verify_choreography cfg e b rs)) = 200
            \<and> member2 (fst (verify_choreography cfg e b rs)) ''result'' ''move_count'' =
                JStr ''pending_analysis'')"
proof -
  have minted: "http_status (fst (verify_choreography cfg e b rs)) = 200
      \<and> member2 (fst (verify_choreography cfg e b rs)) ''result'' ''move_count'' =
          js_or (optional_length (field b ''moves'')) (JStr ''pending_analysis'')"
    if "truthy (field b ''video_url'') \<or> truthy (field b ''moves'')"
    using that assms
    by (auto simp: verify_choreography_def Let_def split_beta member2_def receipt_result
        field_JObj)
  have absent: "js_or (optional_length v) (JStr ''pending_analysis'') = JStr ''pending_analysis''"
    if "\<not> truthy v" for v
    using that by (cases v) (simp_all add: js_or_def)
  have listed: "js_or (optional_length (JArr xs)) (JStr ''pending_analysis'') =
      (if xs = [] then JStr ''pending_analysis'' else JNum (of_nat (length xs)))"
    by (simp add: js_or_def)
  show ?thesis
    using minted absent listed by auto
qed

theorem move_count_of_choreography_witness:
  "http_status (fst (verify_choreography default_config example_env
       (JObj [(''moves'', JArr [JStr ''stomp'', JStr ''jab'', JStr ''buck''])]) [])) = 200
   \<and> member2 (fst (verify_choreography default_config example_env
       (JObj [(''moves'', JArr [JStr ''stomp'', JStr ''jab'', JStr ''buck''])]) []))
       ''result'' ''move_count'' = JNum 3
   \<and> member2 (fst (verify_choreography default_config example_env
       (JObj [(''video_url'', JStr ''https://example.com/v.mp4'')]) []))
       ''result'' ''move_count'' = JStr ''pending_analysis''"
proof -
  let ?b = "JObj [(''moves'', JArr [JStr ''stomp'', JStr ''jab'', JStr ''buck''])]"
  let ?c = "JObj [(''video_url'', JStr ''https://example.com/v.mp4'')]"
  have b1: "\<not> no_properties ?b" and c1: "\<not> no_properties ?c"
    by (simp_all add: no_properties_def)
  have b2: "style_or_other (field ?b ''style'') = Inr (JStr ''other'')"
    and c2: "style_or_other (field ?c ''style'') = Inr (JStr ''other'')"
    by (simp_all add: field_JObj style_or_other_def)
  have b3: "field ?b ''moves'' = JArr [JStr ''stomp'', JStr ''jab'', JStr ''buck'']"
    by (simp add: field_JObj)
  have c3: "\<not> truthy (field ?c ''moves'') \<and> truthy (field ?c ''video_url'')"
    by (simp add: field_JObj)
  from move_count_of_choreography [OF b1 b2, of "[JStr ''stomp'', JStr ''jab'', JStr ''buck'']"
      default_config example_env "[]"] b3
  have x: "http_status (fst (verify_choreography default_config example_env ?b [])) = 200
     \<and> member2 (fst (verify_choreography default_config example_env ?b []))
         ''result'' ''move_count'' = JNum 3"
    by simp
  from move_count_of_choreography [OF c1 c2, of _ default_config example_env "[]"] c3
  have y: "member2 (fst (verify_choreography default_config example_env ?c []))
       ''result'' ''move_count'' = JStr ''pending_analysis''"
    by blast
  from x y show ?thesis by blast
qed

text \<open>
  Claim C6 as it is written fails: a paid request to the choreography operation that
  supplies the empty moves list gets a receipt whose \<^verbatim>\<open>move_count\<close> is the sentinel, not
  the length 0 of the list, although a moves list was supplied.
\<close>

theorem empty_moves_counterexample:
  \<open>field (JObj [(''moves'', JArr [])]) ''moves'' = JArr []
   \<and> http_status (fst (handle default_config example_parser Choreography example_env
        \<lparr>x402_payment = Some ''{"txHash":"0xabc"}'',
         req_body = JObj [(''moves'', JArr [])]\<rparr> startup)) = 200
   \<and> member2 (fst (handle default_config example_parser Choreography example_env
        \<lparr>x402_payment = Some ''{"txHash":"0xabc"}'',
         req_body = JObj [(''moves'', JArr [])]\<rparr> startup))
       ''result'' ''move_count'' = JStr ''pending_analysis''
   \<and> JStr ''pending_analysis'' \<noteq> JNum (of_nat (length ([] :: jsval list)))\<close>
proof -
  let ?b = "JObj [(''moves'', JArr [])]"
  have "http_status (fst (verify_choreography default_config example_env ?b [])) = 200
     \<and> member2 (fst (verify_choreography default_config example_env ?b []))
         ''result'' ''move_count'' = JStr ''pending_analysis''"
    by (simp add: verify_choreography_def Let_def split_beta member2_def receipt_result
        field_JObj no_properties_def style_or_other_def js_or_def)
  moreover have "receipts startup = []" by (simp add: startup_def)
  ultimately show ?thesis
    by (simp add: handle_when_passes [OF example_passes] field_JObj)
qed

lemma chest_pop_known:
  "map_of knownMoves (String_toLowerCase ''chest pop'') = Some (''Tight Eyez'', ''2000-2004'')"
  by code_simp

lemma krump_is_krump: "validateStyle (JStr ''krump'') = Inr (JStr ''krump'')"
  by code_simp

lemma tight_eyez_differs:
  "(String_toLowerCase ''Tight Eyez'' = String_toLowerCase ''Someone Else'') = False"
  by code_simp

text \<open>The attribution handler on a known krump move.\<close>

lemma verify_attribution_known:
  assumes "\<not> no_properties b"
    and "field b ''move_name'' = JStr m" and "m \<noteq> []"
    and "field b ''claimed_creator'' = JStr c" and "c \<noteq> []"
    and "style_or_other (field b ''style'') = Inr (JStr ''krump'')"
    and "map_of knownMoves (String_toLowerCase m) = Some (creator, era)"
  shows "http_status (fst (verify_attribution cfg e b rs)) = 200
     \<and> member2 (fst (verify_attribution cfg e b rs)) ''result'' ''krump_database_match'' =
         JObj [(''known_origin'', JObj [(''creator'', JStr creator), (''era'', JStr era)]),
               (''match'', JBool (String_toLowerCase creator = String_toLowerCase c))]
     \<and> member2 (fst (verify_attribution cfg e b rs)) ''result'' ''verification_status'' =
         (if String_toLowerCase creator = String_toLowerCase c
          then JStr ''likely_accurate'' else JStr ''unverified'')"
  using assms
  by (simp add: verify_attribution_def Let_def split_beta member2_def receipt_result field_JObj
      krump_lookup_def)

text \<open>
  Claim C7. For the attribution operation with the move name \<^verbatim>\<open>chest pop\<close> and the
  style \<^verbatim>\<open>krump\<close>, the claimed creator \<^verbatim>\<open>Tight Eyez\<close> gives a receipt with the record of
  the known-moves table, a match and the verification status \<^verbatim>\<open>likely_accurate\<close>, and
  the claimed creator \<^verbatim>\<open>Someone Else\<close> gives the same record, no match and the status
  \<^verbatim>\<open>unverified\<close>. In general, for a move of the table under the style krump, the status
  is \<^verbatim>\<open>likely_accurate\<close> exactly when the claimed creator and the table's creator are
  the same string once both are lower-cased.
\<close>

theorem attribution_creator_match:
  "(field b ''move_name'' = JStr ''chest pop'' \<and> field b ''style'' = JStr ''krump''
      \<and> field b ''claimed_creator'' = JStr ''Tight Eyez'' \<longrightarrow>
      http_status (fst (verify_attribution cfg e b rs)) = 200
      \<and> member2 (fst (verify_attribution cfg e b rs)) ''result'' ''krump_database_match'' =
          JObj [(''known_origin'',
                   JObj [(''creator'', JStr ''Tight Eyez''), (''era'', JStr ''2000-2004'')]),
                (''match'', JBool True)]
      \<and> member2 (fst (verify_attribution cfg e b rs)) ''result'' ''verification_status'' =
          JStr ''likely_accurate'')
   \<and> (field b ''move_name'' = JStr ''chest pop'' \<and> field b ''style'' = JStr ''krump''
      \<and> field b ''claimed_creator'' = JStr ''Someone Else'' \<longrightarrow>
      http_status (fst (verify_attribution cfg e b rs)) = 200
      \<and> member2 (fst (verify_attribution cfg e b rs)) ''result'' ''krump_database_match'' =
          JObj [(''known_origin'',
                   JObj [(''creator'', JStr ''Tight Eyez''), (''era'', JStr ''2000-2004'')]),
                (''match'', JBool False)]
      \<and> member2 (fst (verify_attribution cfg e b rs)) ''result'' ''verification_status'' =
          JStr ''unverified'')
   \<and> (field b ''move_name'' = JStr m \<and> m \<noteq> [] \<and> field b ''claimed_creator'' = JStr c \<and> c \<noteq> []
      \<and> style_or_other (field b ''style'') = Inr (JStr ''krump'')
      \<and> map_of knownMoves (String_toLowerCase m) = Some (creator, era) \<longrightarrow>
      http_status (fst (verify_attribution cfg e b rs)) = 200
      \<and> (member2 (fst (verify_attribution cfg e b rs)) ''result'' ''verification_status'' =
            JStr ''likely_accurate''
          \<longleftrightarrow> String_toLowerCase c = String_toLowerCase creator)
      \<and> (member2 (fst (verify_attribution cfg e b rs)) ''result'' ''verification_status'' =
            JStr ''unverified''
          \<longleftrightarrow> String_toLowerCase c \<noteq> String_toLowerCase creator))"
proof (intro conjI impI)
  assume a: "field b ''move_name'' = JStr ''chest pop'' \<and> field b ''style'' = JStr ''krump''
      \<and> field b ''claimed_creator'' = JStr ''Tight Eyez''"
  then have f1: "field b ''move_name'' = JStr ''chest pop''"
    and f2: "field b ''style'' = JStr ''krump''"
    and f3: "field b ''claimed_creator'' = JStr ''Tight Eyez''"
    by simp_all
  have np: "\<not> no_properties b"
    using f1 field_no_properties [of b "''move_name''"] by auto
  have st: "style_or_other (field b ''style'') = Inr (JStr ''krump'')"
    by (simp add: f2 style_or_other_def krump_is_krump del: validateStyle.simps)
  have n1: "''chest pop'' \<noteq> []" and n2: "''Tight Eyez'' \<noteq> []" by simp_all
  note k = verify_attribution_known [OF np f1 n1 f3 n2 st chest_pop_known, of cfg e rs]
  from k show "http_status (fst (verify_attribution cfg e b rs)) = 200" by (rule conjunct1)
  from k show "member2 (fst (verify_attribution cfg e b rs)) ''result'' ''krump_database_match'' =
          JObj [(''known_origin'',
                   JObj [(''creator'', JStr ''Tight Eyez''), (''era'', JStr ''2000-2004'')]),
                (''match'', JBool True)]"
    by (simp only: simp_thms)
  from k show "member2 (fst (verify_attribution cfg e b rs)) ''result'' ''verification_status'' =
          JStr ''likely_accurate''"
    by (simp only: simp_thms if_True)
next
  assume a: "field b ''move_name'' = JStr ''chest pop'' \<and> field b ''style'' = JStr ''krump''
      \<and> field b ''claimed_creator'' = JStr ''Someone Else''"
  then have f1: "field b ''move_name'' = JStr ''chest pop''"
    and f2: "field b ''style'' = JStr ''krump''"
    and f3: "field b ''claimed_creator'' = JStr ''Someone Else''"
    by simp_all
  have np: "\<not> no_properties b"
    using f1 field_no_properties [of b "''move_name''"] by auto
  have st: "style_or_other (field b ''style'') = Inr (JStr ''krump'')"
    by (simp add: f2 style_or_other_def krump_is_krump del: validateStyle.simps)
  have n1: "''chest pop'' \<noteq> []" and n2: "''Someone Else'' \<noteq> []" by simp_all
  note k = verify_attribution_known [OF np f1 n1 f3 n2 st chest_pop_known, of cfg e rs]
  from k show "http_status (fst (verify_attribution cfg e b rs)) = 200" by (rule conjunct1)
  from k show "member2 (fst (verify_attribution cfg e b rs)) ''result'' ''krump_database_match'' =
          JObj [(''known_origin'',
                   JObj [(''creator'', JStr ''Tight Eyez''), (''era'', JStr ''2000-2004'')]),
                (''match'', JBool False)]"
    by (simp only: tight_eyez_differs simp_thms)
  from k show "member2 (fst (verify_attribution cfg e b rs)) ''result'' ''verification_status'' =
          JStr ''unverified''"
    by (simp only: tight_eyez_differs simp_thms if_False)
next
  assume a: "field b ''move_name'' = JStr m \<and> m \<noteq> [] \<and> field b ''claimed_creator'' = JStr c
      \<and> c \<noteq> [] \<and> style_or_other (field b ''style'') = Inr (JStr ''krump'')
      \<and> map_of knownMoves (String_toLowerCase m) = Some (creator, era)"
  then have f1: "field b ''move_name'' = JStr m" and n1: "m \<noteq> []"
    and f3: "field b ''claimed_creator'' = JStr c" and n2: "c \<noteq> []"
    and st: "style_or_other (field b ''style'') = Inr (JStr ''krump'')"
    and km: "map_of knownMoves (String_toLowerCase m) = Some (creator, era)"
    by simp_all
  have np: "\<not> no_properties b"
    using f1 field_no_properties [of b "''move_name''"] by auto
  note k = verify_attribution_known [OF np f1 n1 f3 n2 st km, of cfg e rs]
  from k show "http_status (fst (verify_attribution cfg e b rs)) = 200" by (rule conjunct1)
  from k have vs: "member2 (fst (verify_attribution cfg e b rs)) ''result'' ''verification_status'' =
         (if String_toLowerCase creator = String_toLowerCase c
          then JStr ''likely_accurate'' else JStr ''unverified'')"
    by (simp only: simp_thms)
  show "member2 (fst (verify_attribution cfg e b rs)) ''result'' ''verification_status'' =
            JStr ''likely_accurate''
          \<longleftrightarrow> String_toLowerCase c = String_toLowerCase creator"
    unfolding vs by (cases "String_toLowerCase creator = String_toLowerCase c") simp_all
  show "member2 (fst (verify_attribution cfg e b rs)) ''result'' ''verification_status'' =
            JStr ''unverified''
          \<longleftrightarrow> String_toLowerCase c \<noteq> String_toLowerCase creator"
    unfolding vs by (cases "String_toLowerCase creator = String_toLowerCase c") simp_all
qed
theorem attribution_creator_match_witness:
  "member2 (fst (verify_attribution default_config example_env
       (JObj [(''move_name'', JStr ''chest pop''), (''style'', JStr ''krump''),
              (''claimed_creator'', JStr ''Tight Eyez'')]) []))
       ''result'' ''verification_status'' = JStr ''likely_accurate''
   \<and> member2 (fst (verify_attribution default_config example_env
       (JObj [(''move_name'', JStr ''chest pop''), (''style'', JStr ''krump''),
              (''claimed_creator'', JStr ''Someone Else'')]) []))
       ''result'' ''verification_status'' = JStr ''unverified''
   \<and> member2 (fst (verify_attribution default_config example_env
       (JObj [(''move_name'', JStr ''Stomp''), (''style'', JStr '' Krump''),
              (''claimed_creator'', JStr ''BIG MIJO'')]) []))
       ''result'' ''verification_status'' = JStr ''likely_accurate''"
proof -
  let ?b1 = "JObj [(''move_name'', JStr ''chest pop''), (''style'', JStr ''krump''),
              (''claimed_creator'', JStr ''Tight Eyez'')]"
  let ?b2 = "JObj [(''move_name'', JStr ''chest pop''), (''style'', JStr ''krump''),
              (''claimed_creator'', JStr ''Someone Else'')]"
  let ?b3 = "JObj [(''move_name'', JStr ''Stomp''), (''style'', JStr '' Krump''),
              (''claimed_creator'', JStr ''BIG MIJO'')]"
  have h1: "field ?b1 ''move_name'' = JStr ''chest pop'' \<and> field ?b1 ''style'' = JStr ''krump''
      \<and> field ?b1 ''claimed_creator'' = JStr ''Tight Eyez''"
    by (simp add: field_JObj)
  have h2: "field ?b2 ''move_name'' = JStr ''chest pop'' \<and> field ?b2 ''style'' = JStr ''krump''
      \<and> field ?b2 ''claimed_creator'' = JStr ''Someone Else''"
    by (simp add: field_JObj)
  have v: "validateStyle (JStr '' Krump'') = Inr (JStr ''krump'')" by code_simp
  have k: "map_of knownMoves (String_toLowerCase ''Stomp'') = Some (''Big Mijo'', ''2000-2004'')"
    by code_simp
  have l: "String_toLowerCase ''BIG MIJO'' = String_toLowerCase ''Big Mijo''" by code_simp
  have h3: "field ?b3 ''move_name'' = JStr ''Stomp'' \<and> ''Stomp'' \<noteq> []
      \<and> field ?b3 ''claimed_creator'' = JStr ''BIG MIJO'' \<and> ''BIG MIJO'' \<noteq> []
      \<and> style_or_other (field ?b3 ''style'') = Inr (JStr ''krump'')"
    by (simp add: field_JObj style_or_other_def v del: validateStyle.simps)
  from attribution_creator_match [of ?b1 default_config example_env "[]"] h1
  have r1: "member2 (fst (verify_attribution default_config example_env ?b1 []))
       ''result'' ''verification_status'' = JStr ''likely_accurate''"
    by blast
  from attribution_creator_match [of ?b2 default_config example_env "[]"] h2
  have r2: "member2 (fst (verify_attribution default_config example_env ?b2 []))
       ''result'' ''verification_status'' = JStr ''unverified''"
    by blast
  from attribution_creator_match [of ?b3 default_config example_env "[]" "''Stomp''"
      "''BIG MIJO''" "''Big Mijo''" "''2000-2004''"] h3 k l
  have r3: "member2 (fst (verify_attribution default_config example_env ?b3 []))
       ''result'' ''verification_status'' = JStr ''likely_accurate''"
    by blast
  from r1 r2 r3 show ?thesis by blast
qed

end
